theory Spec2Isabelle
  imports Main
begin

section \<open>JavaScript values and errors\<close>

text \<open>
  The three programs of the repository (the Socket.io-integrated server with its
  \<open>RabbitMQService\<close> class and background workers, the plain \<open>app.js\<close> server, and the
  standalone \<open>email-worker.js\<close>) exchange JSON messages through a message broker.
  Values are JavaScript values as far as JSON produces them. A number is carried by its
  canonical text (what \<open>Number.prototype.toString\<close> prints), so that template literals
  print it exactly. An object is its list of own properties in insertion order, with
  distinct keys.
\<close>

datatype jsval =
    Undefined
  | Null
  | Bool bool
  | Num string
  | Str string
  | Arr "jsval list"
  | Obj "(string \<times> jsval) list"

text \<open>
  Everything thrown by the code under study is an \<open>Error\<close> object: the catch blocks read its
  \<open>name\<close>, \<open>message\<close>, \<open>code\<close> and the messages of its \<open>errors\<close> (which a Mongoose
  validation error, the only error named \<open>ValidationError\<close>, always carries).
\<close>

record js_error =
  err_name :: string
  err_message :: string
  err_code :: jsval
  err_errors :: "string list"

definition TypeError :: "string \<Rightarrow> js_error" where
  \<comment> \<open>reading property \<open>p\<close> of \<open>undefined\<close> or \<open>null\<close>; the text of the message is the engine's\<close>
  "TypeError p =
     \<lparr>err_name = ''TypeError'', err_message = ''Cannot read properties (reading '' @ p @ '')'',
      err_code = Undefined, err_errors = []\<rparr>"

fun nullish :: "jsval \<Rightarrow> bool" where
  "nullish Undefined = True"
| "nullish Null = True"
| "nullish _ = False"

fun truthy :: "jsval \<Rightarrow> bool" where
  "truthy Undefined = False"
| "truthy Null = False"
| "truthy (Bool b) = b"
| "truthy (Num n) = (n \<noteq> ''0'' \<and> n \<noteq> ''NaN'')"
| "truthy (Str s) = (s \<noteq> [])"
| "truthy (Arr xs) = True"
| "truthy (Obj kvs) = True"

definition js_or :: "jsval \<Rightarrow> jsval \<Rightarrow> jsval" where
  \<comment> \<open>\<open>a || b\<close>\<close>
  "js_or a b = (if truthy a then a else b)"

fun own :: "jsval \<Rightarrow> string \<Rightarrow> jsval" where
  \<comment> \<open>the value of property \<open>k\<close> of a value that is neither \<open>undefined\<close> nor \<open>null\<close>; the
      property names read in this repository are not built-in properties of strings,
      numbers, booleans or arrays, so only an object can have them\<close>
  "own (Obj kvs) k = (case map_of kvs k of None \<Rightarrow> Undefined | Some v \<Rightarrow> v)"
| "own _ k = Undefined"

definition get_prop :: "jsval \<Rightarrow> string \<Rightarrow> js_error + jsval" where
  \<comment> \<open>\<open>v.k\<close>\<close>
  "get_prop v k = (if nullish v then Inl (TypeError k) else Inr (own v k))"

definition opt_prop :: "jsval \<Rightarrow> string \<Rightarrow> jsval" where
  \<comment> \<open>\<open>v?.k\<close>\<close>
  "opt_prop v k = (if nullish v then Undefined else own v k)"

fun join_with :: "string \<Rightarrow> string list \<Rightarrow> string" where
  "join_with sep [] = []"
| "join_with sep [x] = x"
| "join_with sep (x # y # ys) = x @ sep @ join_with sep (y # ys)"

text \<open>
  \<open>ToString\<close>, as a template literal and \<open>Array.prototype.join\<close> apply it. An object
  that \<open>JSON.parse\<close> built converts through \<open>Object.prototype.toString\<close>, unless it has
  an own property \<open>toString\<close>: that one is not callable, \<open>valueOf\<close> gives back the
  object, and the conversion throws a \<open>TypeError\<close>. An array converts by joining the
  conversions of its elements, \<open>undefined\<close> and \<open>null\<close> as the empty string, and throws
  when an element does.
\<close>

fun convertible :: "jsval \<Rightarrow> bool" where
  "convertible (Obj kvs) = (map_of kvs ''toString'' = None)"
| "convertible (Arr xs) = list_all convertible xs"
| "convertible _ = True"

fun string_of :: "jsval \<Rightarrow> string" where
  \<comment> \<open>the string the conversion yields when it does not throw\<close>
  "string_of Undefined = ''undefined''"
| "string_of Null = ''null''"
| "string_of (Bool b) = (if b then ''true'' else ''false'')"
| "string_of (Num n) = n"
| "string_of (Str s) = s"
| "string_of (Arr xs) = join_with '','' (map (\<lambda>x. if nullish x then [] else string_of x) xs)"
| "string_of (Obj kvs) = ''[object Object]''"

definition conversion_error :: js_error where
  "conversion_error =
     \<lparr>err_name = ''TypeError'', err_message = ''Cannot convert object to primitive value'',
      err_code = Undefined, err_errors = []\<rparr>"

definition to_string :: "jsval \<Rightarrow> js_error + string" where
  \<comment> \<open>\<open>`${v}`\<close>\<close>
  "to_string v = (if convertible v then Inr (string_of v) else Inl conversion_error)"

fun interpolate :: "jsval list \<Rightarrow> js_error option" where
  \<comment> \<open>a template literal whose text is not kept (a console line): its substitutions are
      converted from left to right, and the first conversion that throws ends it\<close>
  "interpolate [] = None"
| "interpolate (v # vs) =
     (case to_string v of Inl error \<Rightarrow> Some error | Inr _ \<Rightarrow> interpolate vs)"

fun obj_set :: "(string \<times> jsval) list \<Rightarrow> string \<Rightarrow> jsval \<Rightarrow> (string \<times> jsval) list" where
  \<comment> \<open>\<open>{...o, k: v}\<close>: an existing key keeps its place and takes the new value, a new key
      goes last\<close>
  "obj_set [] k v = [(k, v)]"
| "obj_set ((k', v') # kvs) k v =
     (if k' = k then (k, v) # kvs else (k', v') # obj_set kvs k v)"

section \<open>The collaborators: broker library, mail transport, log sink\<close>

record amqp_msg =
  deliveryTag :: nat
  redelivered :: bool
  content :: string

datatype html_body =
    Html_value jsval
    \<comment> \<open>a value supplied by the message (\<open>data.html\<close>)\<close>
  | Html_welcome string
    \<comment> \<open>the server's built-in welcome markup around a name\<close>
  | Template_welcome string
    \<comment> \<open>the worker's \<open>email-welcome\<close> template around \<open>data.userName\<close>\<close>
  | Template_password_reset string
    \<comment> \<open>the worker's \<open>password-reset\<close> template around \<open>data.resetLink\<close>\<close>
  | Template_default
    \<comment> \<open>the worker's fallback template\<close>

record mail_options =
  mail_from :: jsval
  mail_to :: jsval
  mail_subject :: jsval
  mail_html :: html_body

record log_entry =
  log_action :: string
  log_userId :: jsval
  log_data :: jsval
  log_status :: string

datatype timer_cb = ConnectRabbitMQ_cb | SetupEmailConsumer_cb

text \<open>
  An event is one call on a collaborator, in program order. Channels and connections are
  named by the handle the library returned. Console output is not recorded; where a
  console line is a template literal, the conversion of its substitutions is modelled,
  since it can throw.
\<close>

datatype event =
    AmqpConnect
  | CreateChannel nat
  | ConnectionOn nat string
  | AssertQueue nat string bool
  | Prefetch nat nat
  | Consume nat string bool
  | SendToQueue nat string string bool
  | CheckQueue nat string
  | Ack nat amqp_msg
  | Nack nat amqp_msg bool bool
  | SetTimeout timer_cb nat
  | Sleep nat
  | SendMail mail_options
  | LogCreate log_entry
  | UserSave
  | Respond nat
  | IoEmit string

text \<open>
  A saved \<open>User\<close> document. The schema makes \<open>name\<close>, \<open>email\<close> and \<open>phone\<close> required
  fields of type \<open>String\<close>, so a document that was saved holds strings there.
\<close>

record user_doc =
  doc_id :: jsval
  doc_name :: string
  doc_email :: string
  doc_phone :: string
  doc_age :: jsval
  doc_createdAt :: jsval

text \<open>
  The world fixes what each collaborator answers: a promise that rejects or a call that
  throws is \<open>Inl\<close> of the error. \<open>assertQueue\<close>, \<open>consume\<close> (where it is awaited),
  \<open>sendToQueue\<close> and \<open>checkQueue\<close> are asked per channel and queue. The calls whose outcome
  the source does not look at (\<open>prefetch\<close>, \<open>ack\<close>, \<open>nack\<close>, \<open>on\<close>, \<open>setTimeout\<close>) are events
  only. \<open>verification_code\<close> is the text of the six-digit number the route draws.
\<close>

record world =
  amqp_connect :: "js_error + nat"
  connection_createChannel :: "nat \<Rightarrow> js_error + nat"
  channel_assertQueue :: "nat \<Rightarrow> string \<Rightarrow> js_error + unit"
  channel_consume :: "nat \<Rightarrow> string \<Rightarrow> js_error + unit"
  channel_sendToQueue :: "nat \<Rightarrow> string \<Rightarrow> string \<Rightarrow> js_error + bool"
  channel_checkQueue :: "nat \<Rightarrow> string \<Rightarrow> js_error + jsval"
  JSON_stringify :: "jsval \<Rightarrow> js_error + string"
  JSON_parse :: "string \<Rightarrow> js_error + jsval"
  Date_toISOString :: jsval
  Date_now_plus_random :: jsval
  env_SMTP_FROM :: jsval
  env_SMTP_USER :: jsval
  smtp_configured :: bool
  transporter_sendMail :: "mail_options \<Rightarrow> js_error + jsval"
  Log_create :: "log_entry \<Rightarrow> js_error + unit"
  User_save :: "jsval \<Rightarrow> js_error + user_doc"
  verification_code :: string
  io_emit :: "string \<Rightarrow> js_error + unit"

type_synonym handler = "jsval \<Rightarrow> amqp_msg \<Rightarrow> event list \<times> (js_error + unit)"

section \<open>\<open>RabbitMQService\<close> (Socket.io-integrated server)\<close>

text \<open>
  The object has the three fields of the source. \<open>listeners\<close> is the listener table of
  its connections: the pairs of connection and event name for which \<open>connect\<close> has
  registered a listener.
\<close>

record rabbitmq_service =
  connection :: "nat option"
  channel :: "nat option"
  isConnected :: bool
  listeners :: "(nat \<times> string) list"

definition RabbitMQService :: rabbitmq_service where
  "RabbitMQService = \<lparr>connection = None, channel = None, isConnected = False, listeners = []\<rparr>"

definition connect ::
  "world \<Rightarrow> rabbitmq_service \<Rightarrow> (js_error + nat) \<times> rabbitmq_service \<times> event list" where
  "connect w s =
     (case amqp_connect w of
        Inl error \<Rightarrow> (Inl error, s\<lparr>isConnected := False\<rparr>, [AmqpConnect])
      | Inr c \<Rightarrow>
          (case connection_createChannel w c of
             Inl error \<Rightarrow>
               (Inl error, s\<lparr>connection := Some c, isConnected := False\<rparr>,
                [AmqpConnect, CreateChannel c])
           | Inr ch \<Rightarrow>
               (Inr ch,
                s\<lparr>connection := Some c, channel := Some ch, isConnected := True,
                  listeners := listeners s @ [(c, ''error'')]\<rparr>,
                [AmqpConnect, CreateChannel c, ConnectionOn c ''error''])))"

definition emit ::
  "nat \<Rightarrow> string \<Rightarrow> rabbitmq_service \<Rightarrow> rabbitmq_service \<times> event list" where
  \<comment> \<open>connection \<open>c\<close> emits event \<open>name\<close>: the only listener the class registers is the one
      for \<open>error\<close>, which clears \<open>isConnected\<close>\<close>
  "emit c name s =
     (if name = ''error'' \<and> (c, ''error'') \<in> set (listeners s)
      then (s\<lparr>isConnected := False\<rparr>, [])
      else (s, []))"

definition ensureConnected ::
  "world \<Rightarrow> rabbitmq_service \<Rightarrow> js_error option \<times> rabbitmq_service \<times> event list" where
  \<comment> \<open>the guard \<open>if (!this.isConnected) await this.connect()\<close> that opens every operation\<close>
  "ensureConnected w s =
     (if \<not> isConnected s
      then (case connect w s of
              (Inl error, s', evs) \<Rightarrow> (Some error, s', evs)
            | (Inr _, s', evs) \<Rightarrow> (None, s', evs))
      else (None, s, []))"

definition envelope :: "world \<Rightarrow> (string \<times> jsval) list \<Rightarrow> jsval" where
  \<comment> \<open>\<open>{...message, timestamp: new Date().toISOString(), messageId: Date.now() + Math.random()}\<close>\<close>
  "envelope w message =
     Obj (obj_set (obj_set message ''timestamp'' (Date_toISOString w))
            ''messageId'' (Date_now_plus_random w))"

definition sendToQueue ::
  "world \<Rightarrow> rabbitmq_service \<Rightarrow> string \<Rightarrow> (string \<times> jsval) list
     \<Rightarrow> (js_error + bool) \<times> rabbitmq_service \<times> event list" where
  "sendToQueue w s queueName message =
     (case ensureConnected w s of
        (Some error, s1, evs) \<Rightarrow> (Inl error, s1, evs)
      | (None, s1, evs) \<Rightarrow>
          (case channel s1 of
             None \<Rightarrow> (Inl (TypeError ''assertQueue''), s1, evs)
           | Some ch \<Rightarrow>
               (case channel_assertQueue w ch queueName of
                  Inl error \<Rightarrow> (Inl error, s1, evs @ [AssertQueue ch queueName True])
                | Inr _ \<Rightarrow>
                    (case JSON_stringify w (envelope w message) of
                       Inl error \<Rightarrow> (Inl error, s1, evs @ [AssertQueue ch queueName True])
                     | Inr messageBuffer \<Rightarrow>
                         (case channel_sendToQueue w ch queueName messageBuffer of
                            Inl error \<Rightarrow>
                              (Inl error, s1,
                               evs @ [AssertQueue ch queueName True,
                                      SendToQueue ch queueName messageBuffer True])
                          | Inr result \<Rightarrow>
                              (Inr result, s1,
                               evs @ [AssertQueue ch queueName True,
                                      SendToQueue ch queueName messageBuffer True]))))))"

definition consumeQueue ::
  "world \<Rightarrow> rabbitmq_service \<Rightarrow> string \<Rightarrow> (js_error + unit) \<times> rabbitmq_service \<times> event list" where
  \<comment> \<open>the subscription; the delivery callback it registers is \<open>consumeQueue_onMessage\<close>\<close>
  "consumeQueue w s queueName =
     (case ensureConnected w s of
        (Some error, s1, evs) \<Rightarrow> (Inl error, s1, evs)
      | (None, s1, evs) \<Rightarrow>
          (case channel s1 of
             None \<Rightarrow> (Inl (TypeError ''assertQueue''), s1, evs)
           | Some ch \<Rightarrow>
               (case channel_assertQueue w ch queueName of
                  Inl error \<Rightarrow> (Inl error, s1, evs @ [AssertQueue ch queueName True])
                | Inr _ \<Rightarrow>
                    (case channel_consume w ch queueName of
                       Inl error \<Rightarrow>
                         (Inl error, s1,
                          evs @ [AssertQueue ch queueName True, Consume ch queueName False])
                     | Inr _ \<Rightarrow>
                         (Inr (), s1,
                          evs @ [AssertQueue ch queueName True, Consume ch queueName False])))))"

definition channel_nack ::
  "rabbitmq_service \<Rightarrow> amqp_msg \<Rightarrow> bool \<Rightarrow> bool \<Rightarrow> event list \<times> (js_error + unit)" where
  \<comment> \<open>\<open>this.channel.nack(message, allUpTo, requeue)\<close>, on the channel the field holds at
      that moment\<close>
  "channel_nack s m allUpTo requeue =
     (case channel s of
        None \<Rightarrow> ([], Inl (TypeError ''nack''))
      | Some ch \<Rightarrow> ([Nack ch m allUpTo requeue], Inr ()))"

definition consumeQueue_catch ::
  "rabbitmq_service \<Rightarrow> amqp_msg \<Rightarrow> event list \<Rightarrow> event list \<times> (js_error + unit)" where
  \<comment> \<open>the catch block of the delivery callback, after the events \<open>evs\<close> of the try block\<close>
  "consumeQueue_catch s m evs =
     (case channel_nack s m False True of (evs', r) \<Rightarrow> (evs @ evs', r))"

definition consumeQueue_onMessage ::
  "world \<Rightarrow> rabbitmq_service \<Rightarrow> handler \<Rightarrow> amqp_msg option \<Rightarrow> event list \<times> (js_error + unit)" where
  "consumeQueue_onMessage w s callback message =
     (case message of
        None \<Rightarrow> ([], Inr ())
      | Some m \<Rightarrow>
          (case JSON_parse w (content m) of
             Inl error \<Rightarrow> consumeQueue_catch s m []
           | Inr c \<Rightarrow>
               (case callback c m of
                  (evs, Inl error) \<Rightarrow> consumeQueue_catch s m evs
                | (evs, Inr _) \<Rightarrow>
                    (case channel s of
                       None \<Rightarrow> consumeQueue_catch s m evs
                     | Some ch \<Rightarrow> (evs @ [Ack ch m], Inr ())))))"

definition getQueueInfo ::
  "world \<Rightarrow> rabbitmq_service \<Rightarrow> string \<Rightarrow> (js_error + jsval) \<times> rabbitmq_service \<times> event list" where
  "getQueueInfo w s queueName =
     (case ensureConnected w s of
        (Some error, s1, evs) \<Rightarrow> (Inl error, s1, evs)
      | (None, s1, evs) \<Rightarrow>
          (case channel s1 of
             None \<Rightarrow> (Inl (TypeError ''checkQueue''), s1, evs)
           | Some ch \<Rightarrow> (channel_checkQueue w ch queueName, s1, evs @ [CheckQueue ch queueName])))"

section \<open>Background workers (Socket.io-integrated server)\<close>

text \<open>
  The four callbacks that \<open>startBackgroundWorkers\<close> registers. Each takes the parsed
  message; destructuring \<open>undefined\<close> or \<open>null\<close> throws. A handler's second argument (the
  broker message) is not used by any of them. Each handler opens and closes with a
  console line that is a template literal: a substitution that cannot be converted to
  a string makes the handler throw there, before or after its call of \<open>Log.create\<close>.
\<close>

definition kullanici :: string where
  \<comment> \<open>the default name of the built-in markup, in UTF-8\<close>
  "kullanici = ''kullan'' @ [CHR 0xC4, CHR 0xB1] @ ''c'' @ [CHR 0xC4, CHR 0xB1]"

definition email_subject :: "jsval \<Rightarrow> js_error + jsval" where
  \<comment> \<open>\<open>data?.subject || `Welcome, ${data?.userName || 'User'}!`\<close>: the template literal is
      evaluated only when the left operand is falsy\<close>
  "email_subject data =
     (if truthy (opt_prop data ''subject'') then Inr (opt_prop data ''subject'')
      else (case to_string (js_or (opt_prop data ''userName'') (Str ''User'')) of
              Inl error \<Rightarrow> Inl error
            | Inr userName \<Rightarrow> Inr (Str (''Welcome, '' @ userName @ ''!''))))"

definition email_html :: "jsval \<Rightarrow> js_error + html_body" where
  \<comment> \<open>\<open>data?.html || `<h2>... ${data?.userName || 'kullanici'}!</h2>...`\<close>\<close>
  "email_html data =
     (if truthy (opt_prop data ''html'') then Inr (Html_value (opt_prop data ''html''))
      else (case to_string (js_or (opt_prop data ''userName'') (Str kullanici)) of
              Inl error \<Rightarrow> Inl error
            | Inr userName \<Rightarrow> Inr (Html_welcome userName)))"

definition email_mailOptions :: "world \<Rightarrow> jsval \<Rightarrow> jsval \<Rightarrow> js_error + mail_options" where
  \<comment> \<open>the object literal, its properties evaluated in order\<close>
  "email_mailOptions w email data =
     (case email_subject data of
        Inl error \<Rightarrow> Inl error
      | Inr subject \<Rightarrow>
          (case email_html data of
             Inl error \<Rightarrow> Inl error
           | Inr html \<Rightarrow>
               Inr \<lparr>mail_from = js_or (env_SMTP_FROM w) (env_SMTP_USER w), mail_to = email,
                    mail_subject = subject, mail_html = html\<rparr>))"

definition email_send :: "world \<Rightarrow> jsval \<Rightarrow> jsval \<Rightarrow> event list \<times> string \<times> jsval" where
  \<comment> \<open>the inner try/catch: the events, \<open>sendStatus\<close> and \<open>sendInfo\<close> it leaves. Whatever
      throws inside the try (a template literal of the mail options, the send, the
      console line of the simulated send) is caught and leaves status \<open>error\<close>\<close>
  "email_send w email data =
     (if smtp_configured w
      then (case email_mailOptions w email data of
              Inl err \<Rightarrow> ([], ''error'', Null)
            | Inr mailOptions \<Rightarrow>
                (case transporter_sendMail w mailOptions of
                   Inl err \<Rightarrow> ([SendMail mailOptions], ''error'', Null)
                 | Inr info \<Rightarrow> ([SendMail mailOptions], ''success'', info)))
      else (case interpolate [email] of
              Some err \<Rightarrow> ([Sleep 500], ''error'', Null)
            | None \<Rightarrow> ([Sleep 500], ''success'', Null)))"

definition log_and_finish ::
  "world \<Rightarrow> event list \<Rightarrow> log_entry \<Rightarrow> jsval list \<Rightarrow> event list \<times> (js_error + unit)" where
  \<comment> \<open>the end of a handler, after the events \<open>evs\<close>: \<open>await Log.create(entry)\<close>, then the
      closing console line with the substitutions \<open>line\<close>\<close>
  "log_and_finish w evs entry line =
     (case Log_create w entry of
        Inl error \<Rightarrow> (evs @ [LogCreate entry], Inl error)
      | Inr _ \<Rightarrow>
          (case interpolate line of
             Some error \<Rightarrow> (evs @ [LogCreate entry], Inl error)
           | None \<Rightarrow> (evs @ [LogCreate entry], Inr ())))"

definition email_log_entry :: "world \<Rightarrow> jsval \<Rightarrow> log_entry" where
  \<comment> \<open>the entry the email handler hands to \<open>Log.create\<close>, with the \<open>sendStatus\<close> and
      \<open>sendInfo\<close> the inner try/catch has left; \<open>type\<close> has been converted once already
      when the entry is built\<close>
  "email_log_entry w message =
     (case email_send w (own message ''email'') (own message ''data'') of
        (evs, sendStatus, sendInfo) \<Rightarrow>
          \<lparr>log_action = ''email-'' @ string_of (own message ''type''),
           log_userId = own message ''userId'',
           log_data = Obj [(''email'', own message ''email''), (''type'', own message ''type''),
                           (''data'', own message ''data''), (''sendInfo'', sendInfo)],
           log_status = sendStatus\<rparr>)"

definition email_handler :: "world \<Rightarrow> handler" where
  \<comment> \<open>the opening console line converts \<open>type\<close>, the closing one \<open>email\<close>, \<open>type\<close> and
      \<open>sendStatus\<close>\<close>
  "email_handler w message m =
     (if nullish message then ([], Inl (TypeError ''type''))
      else
        (case interpolate [own message ''type''] of
           Some error \<Rightarrow> ([], Inl error)
         | None \<Rightarrow>
             log_and_finish w (fst (email_send w (own message ''email'') (own message ''data'')))
               (email_log_entry w message)
               [own message ''email'', own message ''type'',
                Str (log_status (email_log_entry w message))]))"

definition sms_log_entry :: "jsval \<Rightarrow> log_entry" where
  "sms_log_entry message =
     \<lparr>log_action = ''sms-'' @ string_of (own message ''type''),
      log_userId = Undefined,
      log_data = Obj [(''phone'', own message ''phone''), (''content'', own message ''content''),
                      (''type'', own message ''type'')],
      log_status = ''success''\<rparr>"

definition sms_handler :: "world \<Rightarrow> handler" where
  \<comment> \<open>the opening console line converts \<open>type\<close>, the closing one \<open>phone\<close> and \<open>type\<close>\<close>
  "sms_handler w message m =
     (if nullish message then ([], Inl (TypeError ''type''))
      else
        (case interpolate [own message ''type''] of
           Some error \<Rightarrow> ([], Inl error)
         | None \<Rightarrow>
             log_and_finish w [Sleep 800] (sms_log_entry message)
               [own message ''phone'', own message ''type'']))"






definition startBackgroundWorkers ::
  "world \<Rightarrow> rabbitmq_service \<Rightarrow> rabbitmq_service \<times> event list" where
  \<comment> \<open>the first subscription that fails ends the function, which logs and returns\<close>
  "startBackgroundWorkers w s =
     (case consumeQueue w s ''email-queue'' of
        (Inl error, s1, e1) \<Rightarrow> (s1, e1)
      | (Inr _, s1, e1) \<Rightarrow>
          (case consumeQueue w s1 ''sms-queue'' of
             (Inl error, s2, e2) \<Rightarrow> (s2, e1 @ e2)
           | (Inr _, s2, e2) \<Rightarrow>
               (case consumeQueue w s2 ''analytics-queue'' of
                  (Inl error, s3, e3) \<Rightarrow> (s3, e1 @ e2 @ e3)
                | (Inr _, s3, e3) \<Rightarrow>
                    (case consumeQueue w s3 ''image-processing-queue'' of
                       (_, s4, e4) \<Rightarrow> (s4, e1 @ e2 @ e3 @ e4)))))"

definition startServer ::
  "world \<Rightarrow> (js_error + unit) \<times> rabbitmq_service \<times> event list" where
  \<comment> \<open>\<open>Inl\<close>: the connect error that makes the process exit with status 1\<close>
  "startServer w =
     (case connect w RabbitMQService of
        (Inl error, s, evs) \<Rightarrow> (Inl error, s, evs)
      | (Inr _, s, evs) \<Rightarrow>
          (case startBackgroundWorkers w s of (s', evs') \<Rightarrow> (Inr (), s', evs @ evs')))"

section \<open>\<open>POST /api/users\<close> (Socket.io-integrated server)\<close>

definition sms_text :: "string \<Rightarrow> string \<Rightarrow> string" where
  \<comment> \<open>the template literal of the SMS content, in UTF-8, around the name and the code\<close>
  "sms_text userName code =
     ''Merhaba '' @ userName @ '', hesab'' @ [CHR 0xC4, CHR 0xB1] @ ''n''
       @ [CHR 0xC4, CHR 0xB1] @ ''z olu'' @ [CHR 0xC5, CHR 0x9F] @ ''turuldu! Do''
       @ [CHR 0xC4, CHR 0x9F] @ ''rulama kodu: '' @ code"

definition welcome_email_job :: "user_doc \<Rightarrow> (string \<times> jsval) list" where
  "welcome_email_job savedUser =
     [(''type'', Str ''welcome''),
      (''userId'', doc_id savedUser),
      (''email'', Str (doc_email savedUser)),
      (''data'', Obj [(''userName'', Str (doc_name savedUser))])]"

definition background_jobs ::
  "world \<Rightarrow> user_doc \<Rightarrow> (string \<times> (string \<times> jsval) list) list" where
  \<comment> \<open>the four publishes of the route, in order: queue name and payload\<close>
  "background_jobs w savedUser =
     [(''email-queue'', welcome_email_job savedUser),
      (''sms-queue'',
         [(''type'', Str ''verification''),
          (''phone'', Str (doc_phone savedUser)),
          (''content'', Str (sms_text (doc_name savedUser) (verification_code w)))]),
      (''analytics-queue'',
         [(''event'', Str ''user-registered''),
          (''userId'', doc_id savedUser),
          (''data'', Obj [(''userAge'', doc_age savedUser),
                          (''registrationDate'', doc_createdAt savedUser),
                          (''source'', Str ''api'')])]),
      (''image-processing-queue'',
         [(''userId'', doc_id savedUser),
          (''imagePath'', Str ''/uploads/default-avatar.jpg''),
          (''operations'', Arr [Str ''resize'', Str ''optimize'', Str ''thumbnail''])])]"




section \<open>\<open>connectRabbitMQ\<close> (plain \<open>app.js\<close> server)\<close>

record app_js =
  connection_app :: "nat option"
  channel_app :: "nat option"
  listeners_app :: "(nat \<times> string) list"

definition app_js_init :: app_js where
  "app_js_init = \<lparr>connection_app = None, channel_app = None, listeners_app = []\<rparr>"

definition QUEUES :: "string list" where
  "QUEUES = [''email-queue'', ''sms-queue'', ''analytics-queue'', ''image-processing-queue'']"

fun assert_queues :: "world \<Rightarrow> nat \<Rightarrow> string list \<Rightarrow> js_error option \<times> event list" where
  \<comment> \<open>\<open>for (const queue of QUEUES) await channel.assertQueue(queue, { durable: true })\<close>\<close>
  "assert_queues w ch [] = (None, [])"
| "assert_queues w ch (queue # qs) =
     (case channel_assertQueue w ch queue of
        Inl error \<Rightarrow> (Some error, [AssertQueue ch queue True])
      | Inr _ \<Rightarrow>
          (case assert_queues w ch qs of (r, evs) \<Rightarrow> (r, AssertQueue ch queue True # evs)))"

definition connectRabbitMQ_catch ::
  "app_js \<Rightarrow> event list \<Rightarrow> (js_error + unit) \<times> app_js \<times> event list" where
  \<comment> \<open>the catch block: the function itself returns normally\<close>
  "connectRabbitMQ_catch st evs =
     (Inr (), st\<lparr>channel_app := None\<rparr>, evs @ [SetTimeout ConnectRabbitMQ_cb 5000])"

definition connectRabbitMQ ::
  "world \<Rightarrow> app_js \<Rightarrow> (js_error + unit) \<times> app_js \<times> event list" where
  "connectRabbitMQ w st =
     (case amqp_connect w of
        Inl error \<Rightarrow> connectRabbitMQ_catch st [AmqpConnect]
      | Inr c \<Rightarrow>
          (case connection_createChannel w c of
             Inl error \<Rightarrow>
               connectRabbitMQ_catch (st\<lparr>connection_app := Some c\<rparr>) [AmqpConnect, CreateChannel c]
           | Inr ch \<Rightarrow>
               (case assert_queues w ch QUEUES of
                  (Some error, evs) \<Rightarrow>
                    connectRabbitMQ_catch (st\<lparr>connection_app := Some c, channel_app := Some ch\<rparr>)
                      ([AmqpConnect, CreateChannel c] @ evs)
                | (None, evs) \<Rightarrow>
                    (Inr (),
                     st\<lparr>connection_app := Some c, channel_app := Some ch,
                        listeners_app := listeners_app st @ [(c, ''close''), (c, ''error'')]\<rparr>,
                     [AmqpConnect, CreateChannel c] @ evs
                       @ [ConnectionOn c ''close'', ConnectionOn c ''error'']))))"

definition emit_app :: "nat \<Rightarrow> string \<Rightarrow> app_js \<Rightarrow> app_js \<times> event list" where
  \<comment> \<open>connection \<open>c\<close> emits \<open>name\<close>: the \<open>close\<close> listener clears the channel and sets the
      timer, the \<open>error\<close> listener only writes to the console\<close>
  "emit_app c name st =
     (if name = ''close'' \<and> (c, ''close'') \<in> set (listeners_app st)
      then (st\<lparr>channel_app := None\<rparr>, [SetTimeout ConnectRabbitMQ_cb 5000])
      else (st, []))"

fun retry_connectRabbitMQ :: "world list \<Rightarrow> app_js \<Rightarrow> app_js \<times> event list" where
  \<comment> \<open>the attempts that follow one another through the timer: the list gives the world
      at each attempt, and the next attempt runs when the last one has set the timer\<close>
  "retry_connectRabbitMQ [] st = (st, [])"
| "retry_connectRabbitMQ (w # ws) st =
     (case connectRabbitMQ w st of
        (_, st', evs) \<Rightarrow>
          (if SetTimeout ConnectRabbitMQ_cb 5000 \<in> set evs
           then (case retry_connectRabbitMQ ws st' of (st'', evs') \<Rightarrow> (st'', evs @ evs'))
           else (st', evs)))"

section \<open>The standalone email worker (\<open>email-worker.js\<close>)\<close>

definition EMAIL_QUEUE :: string where
  "EMAIL_QUEUE = ''email-queue''"

definition subject_welcome :: string where
  "subject_welcome = ''Platformumuza Ho'' @ [CHR 0xC5, CHR 0x9F] @ '' Geldiniz!''"

definition subject_password_reset :: string where
  "subject_password_reset =
     [CHR 0xC5, CHR 0x9E] @ ''ifre S'' @ [CHR 0xC4, CHR 0xB1] @ ''f'' @ [CHR 0xC4, CHR 0xB1]
       @ ''rlama Talebi''"

definition getSubject :: "jsval \<Rightarrow> string" where
  "getSubject action =
     (if action = Str ''email-welcome'' then subject_welcome
      else if action = Str ''password-reset'' then subject_password_reset
      else ''Sistem Bildirimi'')"

definition getEmailTemplate :: "jsval \<Rightarrow> js_error + html_body" where
  \<comment> \<open>the template literals interpolate \<open>data.userName\<close> and \<open>data.resetLink\<close>\<close>
  "getEmailTemplate emailData =
     (case get_prop emailData ''action'' of
        Inl error \<Rightarrow> Inl error
      | Inr action \<Rightarrow>
          (if action = Str ''email-welcome''
           then (case get_prop (own emailData ''data'') ''userName'' of
                   Inl error \<Rightarrow> Inl error
                 | Inr userName \<Rightarrow>
                     (case to_string userName of
                        Inl error \<Rightarrow> Inl error
                      | Inr text \<Rightarrow> Inr (Template_welcome text)))
           else if action = Str ''password-reset''
           then (case get_prop (own emailData ''data'') ''resetLink'' of
                   Inl error \<Rightarrow> Inl error
                 | Inr resetLink \<Rightarrow>
                     (case to_string resetLink of
                        Inl error \<Rightarrow> Inl error
                      | Inr text \<Rightarrow> Inr (Template_password_reset text)))
           else Inr Template_default))"

definition sendEmail_mailOptions :: "world \<Rightarrow> jsval \<Rightarrow> js_error + mail_options" where
  \<comment> \<open>the object literal, its properties evaluated in order\<close>
  "sendEmail_mailOptions w emailData =
     (case get_prop emailData ''data'' of
        Inl error \<Rightarrow> Inl error
      | Inr d \<Rightarrow>
          (case get_prop d ''email'' of
             Inl error \<Rightarrow> Inl error
           | Inr recipient \<Rightarrow>
               (case get_prop emailData ''action'' of
                  Inl error \<Rightarrow> Inl error
                | Inr action \<Rightarrow>
                    (case getEmailTemplate emailData of
                       Inl error \<Rightarrow> Inl error
                     | Inr html \<Rightarrow>
                         Inr \<lparr>mail_from = env_SMTP_FROM w, mail_to = recipient,
                              mail_subject = Str (getSubject action), mail_html = html\<rparr>))))"

definition recipient_text :: "jsval \<Rightarrow> js_error + string" where
  \<comment> \<open>\<open>`${emailData.data.email}`\<close>, as both console lines of \<open>sendEmail\<close> have it\<close>
  "recipient_text emailData =
     (case get_prop emailData ''data'' of
        Inl error \<Rightarrow> Inl error
      | Inr d \<Rightarrow>
          (case get_prop d ''email'' of
             Inl error \<Rightarrow> Inl error
           | Inr recipient \<Rightarrow> to_string recipient))"

definition sendEmail_catch :: "jsval \<Rightarrow> js_error \<Rightarrow> js_error" where
  \<comment> \<open>the catch block rethrows \<open>error\<close> after a console line that interpolates
      \<open>emailData.data.email\<close>; what leaves the block is the error of that line if it
      throws\<close>
  "sendEmail_catch emailData error =
     (case recipient_text emailData of Inl error' \<Rightarrow> error' | Inr _ \<Rightarrow> error)"

definition sendEmail_sent :: "jsval \<Rightarrow> jsval \<Rightarrow> js_error option" where
  \<comment> \<open>the console line after the send: \<open>`... ${emailData.data.email} (${info.messageId})`\<close>\<close>
  "sendEmail_sent emailData info =
     (case recipient_text emailData of
        Inl error \<Rightarrow> Some error
      | Inr _ \<Rightarrow>
          (case get_prop info ''messageId'' of
             Inl error \<Rightarrow> Some error
           | Inr messageId \<Rightarrow> interpolate [messageId]))"

definition sendEmail :: "world \<Rightarrow> jsval \<Rightarrow> event list \<times> (js_error + jsval)" where
  "sendEmail w emailData =
     (case sendEmail_mailOptions w emailData of
        Inl error \<Rightarrow> ([], Inl (sendEmail_catch emailData error))
      | Inr mailOptions \<Rightarrow>
          (case transporter_sendMail w mailOptions of
             Inl error \<Rightarrow> ([SendMail mailOptions], Inl (sendEmail_catch emailData error))
           | Inr info \<Rightarrow>
               (case sendEmail_sent emailData info of
                  Some error \<Rightarrow> ([SendMail mailOptions], Inl (sendEmail_catch emailData error))
                | None \<Rightarrow> ([SendMail mailOptions], Inr info))))"

definition emailConsumer_onMessage ::
  "world \<Rightarrow> nat \<Rightarrow> amqp_msg option \<Rightarrow> event list \<times> (js_error + unit)" where
  \<comment> \<open>the delivery callback of \<open>setupEmailConsumer\<close>, on the channel \<open>ch\<close> of its closure\<close>
  "emailConsumer_onMessage w ch msg =
     (case msg of
        None \<Rightarrow> ([], Inr ())
      | Some m \<Rightarrow>
          (case JSON_parse w (content m) of
             Inl error \<Rightarrow> ([Nack ch m False False], Inr ())
           | Inr emailData \<Rightarrow>
               (case get_prop emailData ''action'' of
                  Inl error \<Rightarrow> ([Nack ch m False False], Inr ())
                | Inr _ \<Rightarrow>
                    (case sendEmail w emailData of
                       (evs, Inl error) \<Rightarrow> (evs @ [Nack ch m False False], Inr ())
                     | (evs, Inr _) \<Rightarrow> (evs @ [Ack ch m], Inr ())))))"

definition setupEmailConsumer_catch ::
  "(nat \<times> string) list \<Rightarrow> event list \<Rightarrow> (js_error + unit) \<times> (nat \<times> string) list \<times> event list" where
  "setupEmailConsumer_catch ls evs = (Inr (), ls, evs @ [SetTimeout SetupEmailConsumer_cb 5000])"

definition setupEmailConsumer ::
  "world \<Rightarrow> (nat \<times> string) list \<Rightarrow> (js_error + unit) \<times> (nat \<times> string) list \<times> event list" where
  \<comment> \<open>the worker keeps no variables; its state is the listener table of its connections\<close>
  "setupEmailConsumer w ls =
     (case amqp_connect w of
        Inl error \<Rightarrow> setupEmailConsumer_catch ls [AmqpConnect]
      | Inr c \<Rightarrow>
          (case connection_createChannel w c of
             Inl error \<Rightarrow> setupEmailConsumer_catch ls [AmqpConnect, CreateChannel c]
           | Inr ch \<Rightarrow>
               (case channel_assertQueue w ch EMAIL_QUEUE of
                  Inl error \<Rightarrow>
                    setupEmailConsumer_catch ls
                      [AmqpConnect, CreateChannel c, AssertQueue ch EMAIL_QUEUE True]
                | Inr _ \<Rightarrow>
                    (Inr (), ls @ [(c, ''close'')],
                     [AmqpConnect, CreateChannel c, AssertQueue ch EMAIL_QUEUE True,
                      Prefetch ch 1, Consume ch EMAIL_QUEUE False, ConnectionOn c ''close'']))))"

definition emit_worker ::
  "nat \<Rightarrow> string \<Rightarrow> (nat \<times> string) list \<Rightarrow> (nat \<times> string) list \<times> event list" where
  "emit_worker c name ls =
     (if name = ''close'' \<and> (c, ''close'') \<in> set ls
      then (ls, [SetTimeout SetupEmailConsumer_cb 5000])
      else (ls, []))"

fun retry_setupEmailConsumer ::
  "world list \<Rightarrow> (nat \<times> string) list \<Rightarrow> (nat \<times> string) list \<times> event list" where
  \<comment> \<open>as \<open>retry_connectRabbitMQ\<close>, for the worker's timer\<close>
  "retry_setupEmailConsumer [] ls = (ls, [])"
| "retry_setupEmailConsumer (w # ws) ls =
     (case setupEmailConsumer w ls of
        (_, ls', evs) \<Rightarrow>
          (if SetTimeout SetupEmailConsumer_cb 5000 \<in> set evs
           then (case retry_setupEmailConsumer ws ls' of (ls'', evs') \<Rightarrow> (ls'', evs @ evs'))
           else (ls', evs)))"

section \<open>The broker's side of one queue\<close>

text \<open>
  The broker is not code of the repository. This is its contract as the specification's
  glossary gives it: a delivered message stays unacknowledged until the consumer resolves
  it; \<open>ack\<close> removes it for good; \<open>nack\<close> discards it or, with \<open>requeue\<close>, puts it back
  in the queue, marked as redelivered; a prefetch count bounds the unacknowledged
  messages of a consumer, and 0 (the setting of a channel on which \<open>prefetch\<close> was never
  called) is no bound. Every \<open>nack\<close> of the repository passes \<open>allUpTo = false\<close>.
\<close>

record queue_state =
  ready :: "amqp_msg list"
  unacked :: "amqp_msg list"

definition broker_deliver :: "nat \<Rightarrow> queue_state \<Rightarrow> (amqp_msg \<times> queue_state) option" where
  "broker_deliver prefetch_count q =
     (case ready q of
        [] \<Rightarrow> None
      | m # ms \<Rightarrow>
          (if prefetch_count = 0 \<or> length (unacked q) < prefetch_count
           then Some (m, q\<lparr>ready := ms, unacked := unacked q @ [m]\<rparr>)
           else None))"

fun broker_settle :: "queue_state \<Rightarrow> event \<Rightarrow> queue_state" where
  "broker_settle q (Ack ch m) = q\<lparr>unacked := remove1 m (unacked q)\<rparr>"
| "broker_settle q (Nack ch m allUpTo requeue) =
     (if m \<in> set (unacked q)
      then q\<lparr>unacked := remove1 m (unacked q),
             ready := (if requeue then m\<lparr>redelivered := True\<rparr> # ready q else ready q)\<rparr>
      else q)"
| "broker_settle q _ = q"

fun consume_rounds ::
  "nat \<Rightarrow> nat \<Rightarrow> (amqp_msg option \<Rightarrow> event list \<times> (js_error + unit)) \<Rightarrow> queue_state
     \<Rightarrow> queue_state \<times> amqp_msg list" where
  \<comment> \<open>at most \<open>n\<close> rounds of: the broker delivers the head of the queue, the delivery
      callback runs to its end, the broker applies what the callback told the channel;
      the second component lists the deliveries\<close>
  "consume_rounds 0 prefetch_count onMessage q = (q, [])"
| "consume_rounds (Suc n) prefetch_count onMessage q =
     (case broker_deliver prefetch_count q of
        None \<Rightarrow> (q, [])
      | Some (m, q') \<Rightarrow>
          (case consume_rounds n prefetch_count onMessage
                  (foldl broker_settle q' (fst (onMessage (Some m)))) of
             (q'', ds) \<Rightarrow> (q'', m # ds)))"

fun is_resolution :: "event \<Rightarrow> bool" where
  "is_resolution (Ack ch m) = True"
| "is_resolution (Nack ch m allUpTo requeue) = True"
| "is_resolution _ = False"


fun is_prefetch :: "event \<Rightarrow> bool" where
  "is_prefetch (Prefetch ch n) = True"
| "is_prefetch _ = False"

fun is_timer :: "event \<Rightarrow> bool" where
  "is_timer (SetTimeout cb delay) = True"
| "is_timer _ = False"


fun channel_of :: "event \<Rightarrow> nat option" where
  \<comment> \<open>the channel an event uses, if it is a call on a channel\<close>
  "channel_of (AssertQueue ch q d) = Some ch"
| "channel_of (Prefetch ch n) = Some ch"
| "channel_of (Consume ch q noAck) = Some ch"
| "channel_of (SendToQueue ch q text p) = Some ch"
| "channel_of (CheckQueue ch q) = Some ch"
| "channel_of (Ack ch m) = Some ch"
| "channel_of (Nack ch m allUpTo requeue) = Some ch"
| "channel_of _ = None"

definition attempt_refused :: "world \<Rightarrow> string list \<Rightarrow> bool" where
  \<comment> \<open>the broker library rejects one of the calls of a connection attempt that declares
      the queues \<open>qs\<close>: \<open>amqp.connect\<close>, \<open>createChannel\<close> or an \<open>assertQueue\<close>\<close>
  "attempt_refused w qs =
     (case amqp_connect w of
        Inl error \<Rightarrow> True
      | Inr c \<Rightarrow>
          (case connection_createChannel w c of
             Inl error \<Rightarrow> True
           | Inr ch \<Rightarrow> list_ex (\<lambda>q. isl (channel_assertQueue w ch q)) qs))"

section \<open>Sample worlds and messages\<close>

text \<open>
  Concrete worlds and messages on which the model is run. \<open>json_text\<close> writes the JSON
  text of a sample value (the strings of the samples need no escaping; a property whose
  value is \<open>undefined\<close> is left out, as \<open>JSON.stringify\<close> does).
\<close>

fun json_text :: "jsval \<Rightarrow> string"
  and json_items :: "jsval list \<Rightarrow> string list"
  and json_props :: "(string \<times> jsval) list \<Rightarrow> string list" where
  "json_text Undefined = ''null''"
| "json_text Null = ''null''"
| "json_text (Bool b) = (if b then ''true'' else ''false'')"
| "json_text (Num n) = n"
| "json_text (Str s) = [CHR 0x22] @ s @ [CHR 0x22]"
| "json_text (Arr xs) = ''['' @ join_with '','' (json_items xs) @ '']''"
| "json_text (Obj kvs) = ''{'' @ join_with '','' (json_props kvs) @ ''}''"
| "json_items [] = []"
| "json_items (x # xs) = json_text x # json_items xs"
| "json_props [] = []"
| "json_props ((k, v) # kvs) =
     (if v = Undefined then json_props kvs
      else ([CHR 0x22] @ k @ [CHR 0x22] @ '':'' @ json_text v) # json_props kvs)"

definition syntax_error :: js_error where
  "syntax_error =
     \<lparr>err_name = ''SyntaxError'', err_message = ''Unexpected token'', err_code = Undefined,
      err_errors = []\<rparr>"


definition broker_error :: js_error where
  "broker_error =
     \<lparr>err_name = ''Error'', err_message = ''connect ECONNREFUSED 127.0.0.1:5672'',
      err_code = Str ''ECONNREFUSED'', err_errors = []\<rparr>"

definition channel_error :: js_error where
  "channel_error =
     \<lparr>err_name = ''IllegalOperationError'', err_message = ''Channel closed'',
      err_code = Undefined, err_errors = []\<rparr>"

definition saved_user :: user_doc where
  "saved_user =
     \<lparr>doc_id = Str ''u1'', doc_name = ''Ada'', doc_email = ''a@b.com'',
      doc_phone = ''+905551234567'', doc_age = Num ''36'',
      doc_createdAt = Str ''2024-01-01T00:00:00.000Z''\<rparr>"

definition server_email :: jsval where
  \<comment> \<open>what the Socket.io-integrated server puts on \<open>email-queue\<close> for \<open>saved_user\<close>\<close>
  "server_email =
     Obj (welcome_email_job saved_user
            @ [(''timestamp'', Str ''2024-01-01T00:00:00.000Z''),
               (''messageId'', Num ''1704067200000.5'')])"

definition worker_email :: jsval where
  \<comment> \<open>what \<open>app.js\<close> puts on \<open>email-queue\<close>\<close>
  "worker_email =
     Obj [(''action'', Str ''email-welcome''), (''userId'', Str ''u1''),
          (''data'', Obj [(''email'', Str ''a@b.com''), (''type'', Str ''welcome''),
                          (''data'', Obj [(''userName'', Str ''Ada'')])])]"

definition app_js_image :: jsval where
  \<comment> \<open>what \<open>app.js\<close> puts on \<open>image-processing-queue\<close>\<close>
  "app_js_image =
     Obj [(''action'', Str ''image-processed''), (''userId'', Str ''u1''),
          (''data'', Obj [(''imagePath'', Str ''/uploads/default-avatar.jpg''),
                          (''operations'', Arr [Str ''resize'', Str ''optimize'', Str ''thumbnail''])])]"

definition unprintable_sms :: jsval where
  \<comment> \<open>an SMS job whose \<open>type\<close> is an object with an own \<open>toString\<close>\<close>
  "unprintable_sms =
     Obj [(''type'', Obj [(''toString'', Num ''1'')]), (''phone'', Str ''+905551234567''),
          (''content'', Str ''hello'')]"

definition sample_parse :: "string \<Rightarrow> js_error + jsval" where
  \<comment> \<open>\<open>JSON.parse\<close> on the texts of the samples; any other text is taken as malformed\<close>
  "sample_parse text =
     (if text = json_text server_email then Inr server_email
      else if text = json_text worker_email then Inr worker_email
      else if text = json_text app_js_image then Inr app_js_image
      else if text = json_text unprintable_sms then Inr unprintable_sms
      else Inl syntax_error)"

definition world_ok :: world where
  "world_ok =
     \<lparr>amqp_connect = Inr 1,
      connection_createChannel = (\<lambda>c. Inr 7),
      channel_assertQueue = (\<lambda>ch q. Inr ()),
      channel_consume = (\<lambda>ch q. Inr ()),
      channel_sendToQueue = (\<lambda>ch q text. Inr True),
      channel_checkQueue =
        (\<lambda>ch q. Inr (Obj [(''messageCount'', Num ''0''), (''consumerCount'', Num ''1'')])),
      JSON_stringify = (\<lambda>v. Inr (json_text v)),
      JSON_parse = sample_parse,
      Date_toISOString = Str ''2024-01-01T00:00:00.000Z'',
      Date_now_plus_random = Num ''1704067200000.5'',
      env_SMTP_FROM = Str ''noreply@example.com'',
      env_SMTP_USER = Str ''mailer'',
      smtp_configured = True,
      transporter_sendMail = (\<lambda>mailOptions. Inr (Obj [(''messageId'', Str ''<1@example.com>'')])),
      Log_create = (\<lambda>entry. Inr ()),
      User_save = (\<lambda>body. Inr saved_user),
      verification_code = ''123456'',
      io_emit = (\<lambda>name. Inr ())\<rparr>"


definition world_broker_down :: world where
  "world_broker_down = world_ok\<lparr>amqp_connect := Inl broker_error\<rparr>"


definition server_msg :: amqp_msg where
  "server_msg = \<lparr>deliveryTag = 1, redelivered = False, content = json_text server_email\<rparr>"


definition malformed_msg :: amqp_msg where
  "malformed_msg = \<lparr>deliveryTag = 3, redelivered = False, content = ''{oops''\<rparr>"



definition connected_service :: rabbitmq_service where
  "connected_service =
     \<lparr>connection = Some 1, channel = Some 7, isConnected = True, listeners = [(1, ''error'')]\<rparr>"




definition reset_email :: jsval where
  \<comment> \<open>a password-reset job in the shape the standalone worker reads\<close>
  "reset_email =
     Obj [(''action'', Str ''password-reset''),
          (''data'', Obj [(''email'', Str ''a@b.com''),
                          (''resetLink'', Str ''https://example.com/reset/42'')])]"

definition world_no_channel :: world where
  "world_no_channel = world_ok\<lparr>connection_createChannel := (\<lambda>c. Inl channel_error)\<rparr>"

definition world_queue_refused :: world where
  "world_queue_refused = world_ok\<lparr>channel_assertQueue := (\<lambda>ch q. Inl channel_error)\<rparr>"



section \<open>Facts about the model\<close>

lemma log_and_finish_events:
  "fst (log_and_finish w evs entry line) = evs @ [LogCreate entry]"
  by (simp add: log_and_finish_def split: sum.splits option.splits)

lemma log_and_finish_result:
  "snd (log_and_finish w evs entry line)
     = (case Log_create w entry of
          Inl e \<Rightarrow> Inl e
        | Inr u \<Rightarrow> (case interpolate line of Some e \<Rightarrow> Inl e | None \<Rightarrow> Inr ()))"
  by (simp add: log_and_finish_def split: sum.splits option.splits)

lemma email_send_events:
  "fst (email_send w email data) =
     (if smtp_configured w
      then (case email_mailOptions w email data of Inl e \<Rightarrow> [] | Inr mailOptions \<Rightarrow> [SendMail mailOptions])
      else [Sleep 500])"
  by (simp add: email_send_def split: sum.splits option.splits)

lemma email_send_quiet: "filter is_resolution (fst (email_send w email data)) = []"
  by (simp add: email_send_events split: sum.splits)

lemma email_handler_events:
  "fst (email_handler w c m) =
     (if nullish c \<or> \<not> convertible (own c ''type'') then []
      else fst (email_send w (own c ''email'') (own c ''data'')) @ [LogCreate (email_log_entry w c)])"
  by (simp add: email_handler_def log_and_finish_events to_string_def split: option.splits)

lemma email_handler_quiet: "filter is_resolution (fst (email_handler w c m)) = []"
  by (simp add: email_handler_events email_send_quiet)

lemma sendEmail_events:
  "fst (sendEmail w emailData) =
     (case sendEmail_mailOptions w emailData of Inl e \<Rightarrow> [] | Inr mailOptions \<Rightarrow> [SendMail mailOptions])"
  by (simp add: sendEmail_def split: sum.splits option.splits)

lemma sendEmail_quiet: "filter is_resolution (fst (sendEmail w emailData)) = []"
  by (simp add: sendEmail_events split: sum.splits)


lemma consumeQueue_onMessage_malformed:
  "JSON_parse w (content m) = Inl e \<Longrightarrow> channel s = Some ch \<Longrightarrow>
     consumeQueue_onMessage w s callback (Some m) = ([Nack ch m False True], Inr ())"
  by (simp add: consumeQueue_onMessage_def consumeQueue_catch_def channel_nack_def)

lemma consumeQueue_onMessage_throws:
  "JSON_parse w (content m) = Inr c \<Longrightarrow> channel s = Some ch \<Longrightarrow> isl (snd (callback c m)) \<Longrightarrow>
     consumeQueue_onMessage w s callback (Some m) = (fst (callback c m) @ [Nack ch m False True], Inr ())"
  by (cases "callback c m")
     (auto simp add: consumeQueue_onMessage_def consumeQueue_catch_def channel_nack_def isl_def)

lemma consumeQueue_onMessage_returns:
  "JSON_parse w (content m) = Inr c \<Longrightarrow> channel s = Some ch \<Longrightarrow> \<not> isl (snd (callback c m)) \<Longrightarrow>
     consumeQueue_onMessage w s callback (Some m) = (fst (callback c m) @ [Ack ch m], Inr ())"
  by (cases "callback c m")
     (auto simp add: consumeQueue_onMessage_def isl_def split: sum.splits)

lemma emailConsumer_onMessage_malformed:
  "JSON_parse w (content m) = Inl e \<Longrightarrow>
     emailConsumer_onMessage w ch (Some m) = ([Nack ch m False False], Inr ())"
  by (simp add: emailConsumer_onMessage_def)



text \<open>
  Claim C1. A delivered message is acknowledged only after the registered callback has
  run to its end, and every delivered message that is not \<open>null\<close> gets exactly one
  resolution: an \<open>ack\<close> when the callback returns normally, a \<open>nack\<close> when
  \<open>JSON.parse\<close> or the callback throws. The events of a delivery are the events of the
  callback followed by that one resolution, both for the callback of \<open>consumeQueue\<close>
  (with a channel in the service's field, and a callback that does not itself resolve
  messages) and for the callback of the standalone worker (where \<open>sendEmail\<close> is the
  handler).
\<close>

theorem resolved_once_after_callback:
  assumes ch: "channel s = Some ch"
      and quiet: "\<forall>c. filter is_resolution (fst (callback c m)) = []"
  shows "(\<exists>evs r. consumeQueue_onMessage w s callback (Some m) = (evs @ [r], Inr ())
            \<and> filter is_resolution (evs @ [r]) = [r]
            \<and> (case JSON_parse w (content m) of
                  Inl e \<Rightarrow> evs = [] \<and> r = Nack ch m False True
                | Inr c \<Rightarrow>
                    evs = fst (callback c m)
                    \<and> (case snd (callback c m) of
                          Inl e \<Rightarrow> r = Nack ch m False True
                        | Inr u \<Rightarrow> r = Ack ch m)))
       \<and> (\<exists>evs r. emailConsumer_onMessage w ch' (Some m) = (evs @ [r], Inr ())
            \<and> filter is_resolution (evs @ [r]) = [r]
            \<and> (case JSON_parse w (content m) of
                  Inl e \<Rightarrow> evs = [] \<and> r = Nack ch' m False False
                | Inr emailData \<Rightarrow>
                    (case get_prop emailData ''action'' of
                       Inl e \<Rightarrow> evs = [] \<and> r = Nack ch' m False False
                     | Inr a \<Rightarrow>
                         evs = fst (sendEmail w emailData)
                         \<and> (case snd (sendEmail w emailData) of
                               Inl e \<Rightarrow> r = Nack ch' m False False
                             | Inr info \<Rightarrow> r = Ack ch' m))))"
proof (rule conjI)
  show "\<exists>evs r. consumeQueue_onMessage w s callback (Some m) = (evs @ [r], Inr ())
            \<and> filter is_resolution (evs @ [r]) = [r]
            \<and> (case JSON_parse w (content m) of
                  Inl e \<Rightarrow> evs = [] \<and> r = Nack ch m False True
                | Inr c \<Rightarrow>
                    evs = fst (callback c m)
                    \<and> (case snd (callback c m) of
                          Inl e \<Rightarrow> r = Nack ch m False True
                        | Inr u \<Rightarrow> r = Ack ch m))"
  proof (cases "JSON_parse w (content m)")
    case (Inl e)
    with ch show ?thesis by (simp add: consumeQueue_onMessage_malformed)
  next
    case (Inr c)
    from quiet have q: "filter is_resolution (fst (callback c m)) = []" by simp
    show ?thesis
    proof (cases "snd (callback c m)")
      case (Inl e)
      with ch Inr q show ?thesis by (simp add: consumeQueue_onMessage_throws)
    next
      case Inr2: (Inr u)
      with ch Inr q show ?thesis by (simp add: consumeQueue_onMessage_returns)
    qed
  qed
next
  show "\<exists>evs r. emailConsumer_onMessage w ch' (Some m) = (evs @ [r], Inr ())
            \<and> filter is_resolution (evs @ [r]) = [r]
            \<and> (case JSON_parse w (content m) of
                  Inl e \<Rightarrow> evs = [] \<and> r = Nack ch' m False False
                | Inr emailData \<Rightarrow>
                    (case get_prop emailData ''action'' of
                       Inl e \<Rightarrow> evs = [] \<and> r = Nack ch' m False False
                     | Inr a \<Rightarrow>
                         evs = fst (sendEmail w emailData)
                         \<and> (case snd (sendEmail w emailData) of
                               Inl e \<Rightarrow> r = Nack ch' m False False
                             | Inr info \<Rightarrow> r = Ack ch' m)))"
  proof (cases "JSON_parse w (content m)")
    case (Inl e)
    then show ?thesis by (simp add: emailConsumer_onMessage_malformed)
  next
    case (Inr emailData)
    show ?thesis
    proof (cases "get_prop emailData ''action''")
      case (Inl e)
      with Inr show ?thesis by (simp add: emailConsumer_onMessage_def)
    next
      case act: (Inr a)
      show ?thesis
      proof (cases "sendEmail w emailData")
        case (Pair evs res)
        with sendEmail_quiet [of w emailData] have "filter is_resolution evs = []" by simp
        with Inr act Pair show ?thesis
          by (cases res) (simp_all add: emailConsumer_onMessage_def)
      qed
    qed
  qed
qed

lemma parse_server_msg: "JSON_parse world_ok (content server_msg) = Inr server_email"
  by (simp add: world_ok_def sample_parse_def server_msg_def)

lemma server_email_handled: "snd (email_handler world_ok server_email server_msg) = Inr ()"
  by (simp add: email_handler_def log_and_finish_result to_string_def world_ok_def server_email_def
        welcome_email_job_def)

theorem resolved_once_after_callback_witness:
  "channel connected_service = Some 7
   \<and> (\<forall>c. filter is_resolution (fst (email_handler world_ok c server_msg)) = [])
   \<and> filter is_resolution
        (fst (consumeQueue_onMessage world_ok connected_service (email_handler world_ok) (Some server_msg)))
       = [Ack 7 server_msg]
   \<and> filter is_resolution (fst (emailConsumer_onMessage world_ok 7 (Some malformed_msg)))
       = [Nack 7 malformed_msg False False]"
proof -
  have h1: "channel connected_service = Some 7" by (simp add: connected_service_def)
  have h2: "\<forall>c. filter is_resolution (fst (email_handler world_ok c server_msg)) = []"
    by (simp add: email_handler_quiet)
  have h3: "\<forall>c. filter is_resolution (fst (email_handler world_ok c malformed_msg)) = []"
    by (simp add: email_handler_quiet)
  have bad: "JSON_parse world_ok (content malformed_msg) = Inl syntax_error"
    by (simp add: world_ok_def sample_parse_def malformed_msg_def server_email_def
          worker_email_def app_js_image_def unprintable_sms_def welcome_email_job_def
          saved_user_def)
  from resolved_once_after_callback
         [where s = connected_service and ch = 7 and callback = "email_handler world_ok"
            and m = server_msg and w = world_ok and ch' = 7, OF h1 h2]
  have a: "filter is_resolution
        (fst (consumeQueue_onMessage world_ok connected_service (email_handler world_ok) (Some server_msg)))
       = [Ack 7 server_msg]"
    by (auto simp add: parse_server_msg server_email_handled)
  from resolved_once_after_callback
         [where s = connected_service and ch = 7 and callback = "email_handler world_ok"
            and m = malformed_msg and w = world_ok and ch' = 7, OF h1 h3]
  have b: "filter is_resolution (fst (emailConsumer_onMessage world_ok 7 (Some malformed_msg)))
       = [Nack 7 malformed_msg False False]"
    by (auto simp add: bad)
  from h1 h2 a b show ?thesis by simp
qed

lemma parse_malformed_msg: "JSON_parse world_ok (content malformed_msg) = Inl syntax_error"
  by (simp add: world_ok_def sample_parse_def malformed_msg_def server_email_def
        worker_email_def app_js_image_def unprintable_sms_def welcome_email_job_def
          saved_user_def)

lemma emailConsumer_drops_malformed:
  assumes "JSON_parse w (content m) = Inl e"
  shows "consume_rounds (Suc n) 1 (emailConsumer_onMessage w ch) \<lparr>ready = [m], unacked = []\<rparr>
           = (\<lparr>ready = [], unacked = []\<rparr>, [m])"
  using assms
  by (cases n) (simp_all add: broker_deliver_def emailConsumer_onMessage_malformed)

text \<open>
  Claim C2 says that a message whose body fails to deserialize is nacked with requeue
  disabled and never redelivered. Against it: on a body that \<open>JSON.parse\<close> rejects, the
  delivery callback of \<open>consumeQueue\<close> calls \<open>nack(message, false, true)\<close>, and the broker
  delivers the same message again in every later round.
\<close>

theorem malformed_requeued_by_consumeQueue:
  "JSON_parse world_ok (content malformed_msg) = Inl syntax_error
   \<and> consumeQueue_onMessage world_ok connected_service (email_handler world_ok) (Some malformed_msg)
       = ([Nack 7 malformed_msg False True], Inr ())
   \<and> snd (consume_rounds (Suc (Suc (Suc 0))) 0
             (consumeQueue_onMessage world_ok connected_service (email_handler world_ok))
             \<lparr>ready = [malformed_msg], unacked = []\<rparr>)
       = [malformed_msg, malformed_msg\<lparr>redelivered := True\<rparr>, malformed_msg\<lparr>redelivered := True\<rparr>]"
proof -
  have ch: "channel connected_service = Some 7" by (simp add: connected_service_def)
  have bad': "JSON_parse world_ok (content (malformed_msg\<lparr>redelivered := True\<rparr>)) = Inl syntax_error"
    using parse_malformed_msg by simp
  show ?thesis
    by (simp add: parse_malformed_msg broker_deliver_def
          consumeQueue_onMessage_malformed [OF parse_malformed_msg ch]
          consumeQueue_onMessage_malformed [OF bad' ch])
qed

text \<open>
  Claim C2, amended. A message whose body fails to deserialize is nacked exactly once and
  the handler is not run. The standalone email worker nacks it with requeue disabled,
  so the broker drops it and never delivers it again; \<open>RabbitMQService.consumeQueue\<close>
  nacks it with requeue enabled, as it does for every failure.
\<close>

theorem malformed_nacked_once:
  assumes bad: "JSON_parse w (content m) = Inl e"
      and ch': "channel s = Some ch'"
  shows "emailConsumer_onMessage w ch (Some m) = ([Nack ch m False False], Inr ())
       \<and> consume_rounds (Suc n) 1 (emailConsumer_onMessage w ch) \<lparr>ready = [m], unacked = []\<rparr>
           = (\<lparr>ready = [], unacked = []\<rparr>, [m])
       \<and> consumeQueue_onMessage w s callback (Some m) = ([Nack ch' m False True], Inr ())"
proof (intro conjI)
  from bad show "emailConsumer_onMessage w ch (Some m) = ([Nack ch m False False], Inr ())"
    by (rule emailConsumer_onMessage_malformed)
  from bad show "consume_rounds (Suc n) 1 (emailConsumer_onMessage w ch) \<lparr>ready = [m], unacked = []\<rparr>
           = (\<lparr>ready = [], unacked = []\<rparr>, [m])"
    by (rule emailConsumer_drops_malformed)
  from bad ch' show "consumeQueue_onMessage w s callback (Some m) = ([Nack ch' m False True], Inr ())"
    by (rule consumeQueue_onMessage_malformed)
qed

theorem malformed_nacked_once_witness:
  "JSON_parse world_ok (content malformed_msg) = Inl syntax_error
   \<and> channel connected_service = Some 7
   \<and> emailConsumer_onMessage world_ok 7 (Some malformed_msg) = ([Nack 7 malformed_msg False False], Inr ())
   \<and> consume_rounds (Suc (Suc 0)) 1 (emailConsumer_onMessage world_ok 7)
         \<lparr>ready = [malformed_msg], unacked = []\<rparr>
       = (\<lparr>ready = [], unacked = []\<rparr>, [malformed_msg])
   \<and> consumeQueue_onMessage world_ok connected_service (sms_handler world_ok) (Some malformed_msg)
       = ([Nack 7 malformed_msg False True], Inr ())"
proof -
  have ch: "channel connected_service = Some 7" by (simp add: connected_service_def)
  show ?thesis
    using parse_malformed_msg ch
      malformed_nacked_once [OF parse_malformed_msg ch, of 7 "Suc 0" "sms_handler world_ok"]
    by blast
qed












lemma ensureConnected_connected: "isConnected s \<Longrightarrow> ensureConnected w s = (None, s, [])"
  by (simp add: ensureConnected_def)

lemma consumeQueue_connected:
  assumes "isConnected s" and "channel s = Some ch"
  shows "fst (snd (consumeQueue w s q)) = s
       \<and> (snd (snd (consumeQueue w s q)) = [AssertQueue ch q True]
            \<or> snd (snd (consumeQueue w s q)) = [AssertQueue ch q True, Consume ch q False])"
  using assms
  by (simp add: consumeQueue_def ensureConnected_connected split: sum.splits)

lemma consumeQueue_no_prefetch: "filter is_prefetch (snd (snd (consumeQueue w s q))) = []"
  by (simp add: consumeQueue_def ensureConnected_def connect_def
        split: sum.splits option.splits prod.splits)

lemma startBackgroundWorkers_no_prefetch:
  "filter is_prefetch (snd (startBackgroundWorkers w s)) = []"
proof -
  have c: "\<And>s q r s' evs. consumeQueue w s q = (r, s', evs) \<Longrightarrow> filter is_prefetch evs = []"
    using consumeQueue_no_prefetch by (metis snd_conv)
  show ?thesis
    by (auto simp add: startBackgroundWorkers_def dest!: c split: prod.splits sum.splits)
qed

text \<open>
  Claim C4 says that every subscription sets the channel prefetch to the queue's
  concurrency limit, 1 by default, so that a queue is processed one message at a time.
  Against it: \<open>consumeQueue\<close> declares the queue and subscribes, and never calls
  \<open>prefetch\<close>; on a channel without a prefetch count the broker delivers a second
  message while the first is still unacknowledged.
\<close>

theorem consumeQueue_sets_no_prefetch:
  "snd (snd (consumeQueue world_ok connected_service ''email-queue''))
     = [AssertQueue 7 ''email-queue'' True, Consume 7 ''email-queue'' False]
   \<and> broker_deliver 0 \<lparr>ready = [server_msg, malformed_msg], unacked = []\<rparr>
       = Some (server_msg, \<lparr>ready = [malformed_msg], unacked = [server_msg]\<rparr>)
   \<and> broker_deliver 0 \<lparr>ready = [malformed_msg], unacked = [server_msg]\<rparr>
       = Some (malformed_msg, \<lparr>ready = [], unacked = [server_msg, malformed_msg]\<rparr>)"
  by (simp add: consumeQueue_def ensureConnected_def connected_service_def world_ok_def
        broker_deliver_def)

text \<open>
  Claim C4, amended. The standalone email worker, once connected with its queue
  declared, sets the prefetch of its channel to the constant 1 before it subscribes, and
  under a prefetch of 1 the broker delivers no message while one is unacknowledged.
  \<open>RabbitMQService.consumeQueue\<close>, and so \<open>startBackgroundWorkers\<close>, never sets a prefetch.
\<close>

theorem worker_sets_prefetch_one:
  assumes "amqp_connect w = Inr c"
      and "connection_createChannel w c = Inr ch"
      and "channel_assertQueue w ch EMAIL_QUEUE = Inr ()"
      and "unacked q \<noteq> []"
  shows "snd (snd (setupEmailConsumer w ls))
           = [AmqpConnect, CreateChannel c, AssertQueue ch EMAIL_QUEUE True, Prefetch ch 1,
              Consume ch EMAIL_QUEUE False, ConnectionOn c ''close'']
       \<and> broker_deliver 1 q = None
       \<and> filter is_prefetch (snd (snd (consumeQueue w' s queueName))) = []
       \<and> filter is_prefetch (snd (startBackgroundWorkers w' s)) = []"
proof (intro conjI)
  from assms(1-3)
  show "snd (snd (setupEmailConsumer w ls))
           = [AmqpConnect, CreateChannel c, AssertQueue ch EMAIL_QUEUE True, Prefetch ch 1,
              Consume ch EMAIL_QUEUE False, ConnectionOn c ''close'']"
    by (simp add: setupEmailConsumer_def)
  from assms(4) show "broker_deliver 1 q = None"
    by (cases "unacked q") (simp_all add: broker_deliver_def split: list.splits)
  show "filter is_prefetch (snd (snd (consumeQueue w' s queueName))) = []"
    by (rule consumeQueue_no_prefetch)
  show "filter is_prefetch (snd (startBackgroundWorkers w' s)) = []"
    by (rule startBackgroundWorkers_no_prefetch)
qed

theorem worker_sets_prefetch_one_witness:
  "amqp_connect world_ok = Inr 1
   \<and> connection_createChannel world_ok 1 = Inr 7
   \<and> channel_assertQueue world_ok 7 EMAIL_QUEUE = Inr ()
   \<and> unacked \<lparr>ready = [malformed_msg], unacked = [server_msg]\<rparr> \<noteq> []
   \<and> snd (snd (setupEmailConsumer world_ok []))
       = [AmqpConnect, CreateChannel 1, AssertQueue 7 ''email-queue'' True, Prefetch 7 1,
          Consume 7 ''email-queue'' False, ConnectionOn 1 ''close'']
   \<and> broker_deliver 1 \<lparr>ready = [malformed_msg], unacked = [server_msg]\<rparr> = None"
proof -
  have h1: "amqp_connect world_ok = Inr 1" by (simp add: world_ok_def)
  have h2: "connection_createChannel world_ok 1 = Inr 7" by (simp add: world_ok_def)
  have h3: "channel_assertQueue world_ok 7 EMAIL_QUEUE = Inr ()" by (simp add: world_ok_def)
  have h4: "unacked \<lparr>ready = [malformed_msg], unacked = [server_msg]\<rparr> \<noteq> []" by simp
  show ?thesis
    using h1 h2 h3 worker_sets_prefetch_one [OF h1 h2 h3 h4, of "[]"]
    by (simp add: EMAIL_QUEUE_def)
qed

lemma map_of_obj_set: "map_of (obj_set kvs k v) = (map_of kvs)(k \<mapsto> v)"
  by (induction kvs k v rule: obj_set.induct) auto

lemma ensureConnected_events:
  "ensureConnected w s = (r, s1, pre) \<Longrightarrow> pre = (if isConnected s then [] else snd (snd (connect w s)))"
  by (auto simp add: ensureConnected_def split: if_splits prod.splits sum.splits)

text \<open>
  Claim C5. For every queue name and payload, when the service is connected (or its
  guard connects it) and the broker accepts the calls, \<open>sendToQueue\<close> first declares the
  queue durable and then sends one message with the persistent flag: the JSON text of
  the payload with \<open>timestamp\<close> and \<open>messageId\<close> set, every other property as the
  payload has it. Nothing else happens on the channel; the events before are those of
  the connect, if there was one.
\<close>

theorem publish_declares_then_sends_persistent:
  assumes conn: "ensureConnected w s = (None, s1, pre)"
      and ch: "channel s1 = Some ch"
      and declared: "channel_assertQueue w ch queueName = Inr ()"
      and serial: "JSON_stringify w (envelope w message) = Inr text"
      and sent: "channel_sendToQueue w ch queueName text = Inr result"
  shows "sendToQueue w s queueName message
           = (Inr result, s1,
              pre @ [AssertQueue ch queueName True, SendToQueue ch queueName text True])
       \<and> pre = (if isConnected s then [] else snd (snd (connect w s)))
       \<and> (\<exists>kvs. envelope w message = Obj kvs
              \<and> map_of kvs = (map_of message)(''timestamp'' \<mapsto> Date_toISOString w,
                                               ''messageId'' \<mapsto> Date_now_plus_random w))"
proof (intro conjI)
  from conn ch declared serial sent
  show "sendToQueue w s queueName message
           = (Inr result, s1,
              pre @ [AssertQueue ch queueName True, SendToQueue ch queueName text True])"
    by (simp add: sendToQueue_def)
  from conn show "pre = (if isConnected s then [] else snd (snd (connect w s)))"
    by (rule ensureConnected_events)
  show "\<exists>kvs. envelope w message = Obj kvs
              \<and> map_of kvs = (map_of message)(''timestamp'' \<mapsto> Date_toISOString w,
                                               ''messageId'' \<mapsto> Date_now_plus_random w)"
    by (simp add: envelope_def map_of_obj_set)
qed

lemma envelope_saved_user: "envelope world_ok (welcome_email_job saved_user) = server_email"
  by (simp add: envelope_def welcome_email_job_def server_email_def world_ok_def)

theorem publish_declares_then_sends_persistent_witness:
  "ensureConnected world_ok connected_service = (None, connected_service, [])
   \<and> channel connected_service = Some 7
   \<and> channel_assertQueue world_ok 7 ''email-queue'' = Inr ()
   \<and> JSON_stringify world_ok (envelope world_ok (welcome_email_job saved_user))
       = Inr (json_text server_email)
   \<and> channel_sendToQueue world_ok 7 ''email-queue'' (json_text server_email) = Inr True
   \<and> sendToQueue world_ok connected_service ''email-queue'' (welcome_email_job saved_user)
       = (Inr True, connected_service,
          [AssertQueue 7 ''email-queue'' True,
           SendToQueue 7 ''email-queue'' (json_text server_email) True])"
proof -
  have h1: "ensureConnected world_ok connected_service = (None, connected_service, [])"
    by (simp add: ensureConnected_def connected_service_def)
  have h2: "channel connected_service = Some 7" by (simp add: connected_service_def)
  have h3: "channel_assertQueue world_ok 7 ''email-queue'' = Inr ()" by (simp add: world_ok_def)
  have h4: "JSON_stringify world_ok (envelope world_ok (welcome_email_job saved_user))
              = Inr (json_text server_email)"
    by (simp only: envelope_saved_user) (simp add: world_ok_def)
  have h5: "channel_sendToQueue world_ok 7 ''email-queue'' (json_text server_email) = Inr True"
    by (simp add: world_ok_def)
  show ?thesis
    using h1 h2 h3 h4 h5 publish_declares_then_sends_persistent [OF h1 h2 h3 h4 h5]
    by simp
qed

lemma consumeQueue_channels:
  assumes "isConnected s" and "channel s = Some ch"
  shows "set (map channel_of (snd (snd (consumeQueue w s q)))) \<subseteq> {Some ch}"
  using consumeQueue_connected [OF assms, of w q] by auto

lemma consumeQueue_keeps_state:
  assumes "isConnected s" and "channel s = Some ch"
  shows "fst (snd (consumeQueue w s q)) = s"
  using consumeQueue_connected [OF assms, of w q] by simp

lemma startBackgroundWorkers_channels:
  assumes c: "isConnected s" and ch: "channel s = Some ch"
  shows "set (map channel_of (snd (startBackgroundWorkers w s))) \<subseteq> {Some ch}"
proof -
  have k: "\<And>q r s' evs. consumeQueue w s q = (r, s', evs)
             \<Longrightarrow> s' = s \<and> (\<forall>e \<in> set evs. channel_of e = Some ch)"
  proof -
    fix q r s' evs
    assume a: "consumeQueue w s q = (r, s', evs)"
    from consumeQueue_channels [OF c ch, of w q] a
    have "\<forall>e \<in> set evs. channel_of e = Some ch" by auto
    moreover from consumeQueue_keeps_state [OF c ch, of w q] a have "s' = s" by simp
    ultimately show "s' = s \<and> (\<forall>e \<in> set evs. channel_of e = Some ch)" by simp
  qed
  have "\<forall>e \<in> set (snd (startBackgroundWorkers w s)). channel_of e = Some ch"
    unfolding startBackgroundWorkers_def
    by (auto split: prod.splits sum.splits dest!: k)
  then show ?thesis by auto
qed

lemma consumeQueue_onMessage_last:
  assumes ch: "channel s = Some ch"
  shows "\<exists>evs r. consumeQueue_onMessage w s callback (Some m) = (evs @ [r], Inr ())
           \<and> is_resolution r \<and> channel_of r = Some ch"
proof (cases "JSON_parse w (content m)")
  case (Inl e)
  with ch show ?thesis by (simp add: consumeQueue_onMessage_malformed)
next
  case (Inr c)
  show ?thesis
  proof (cases "isl (snd (callback c m))")
    case True
    from consumeQueue_onMessage_throws [where callback = callback, OF Inr ch True]
    show ?thesis by simp
  next
    case False
    from consumeQueue_onMessage_returns [where callback = callback, OF Inr ch False]
    show ?thesis by simp
  qed
qed

text \<open>
  Claim C8 says that a channel serves exactly one role, the publish path or one queue's
  consume loop. Against it: after \<open>startServer\<close> the four subscriptions are on the one
  channel the service holds, and a publish goes out on that same channel.
\<close>

theorem one_channel_for_every_role:
  "snd (snd (startServer world_ok))
     = [AmqpConnect, CreateChannel 1, ConnectionOn 1 ''error'',
        AssertQueue 7 ''email-queue'' True, Consume 7 ''email-queue'' False,
        AssertQueue 7 ''sms-queue'' True, Consume 7 ''sms-queue'' False,
        AssertQueue 7 ''analytics-queue'' True, Consume 7 ''analytics-queue'' False,
        AssertQueue 7 ''image-processing-queue'' True,
        Consume 7 ''image-processing-queue'' False]
   \<and> fst (snd (startServer world_ok)) = connected_service
   \<and> snd (snd (sendToQueue world_ok connected_service ''email-queue'' (welcome_email_job saved_user)))
       = [AssertQueue 7 ''email-queue'' True,
          SendToQueue 7 ''email-queue'' (json_text server_email) True]"
proof (intro conjI)
  have c: "connect world_ok RabbitMQService
             = (Inr 7, connected_service, [AmqpConnect, CreateChannel 1, ConnectionOn 1 ''error''])"
    by (simp add: connect_def world_ok_def RabbitMQService_def connected_service_def)
  have q: "\<And>q. consumeQueue world_ok connected_service q
             = (Inr (), connected_service, [AssertQueue 7 q True, Consume 7 q False])"
    by (simp add: consumeQueue_def ensureConnected_def connected_service_def world_ok_def)
  have b: "startBackgroundWorkers world_ok connected_service
             = (connected_service,
                [AssertQueue 7 ''email-queue'' True, Consume 7 ''email-queue'' False,
                 AssertQueue 7 ''sms-queue'' True, Consume 7 ''sms-queue'' False,
                 AssertQueue 7 ''analytics-queue'' True, Consume 7 ''analytics-queue'' False,
                 AssertQueue 7 ''image-processing-queue'' True,
                 Consume 7 ''image-processing-queue'' False])"
    by (simp add: startBackgroundWorkers_def q)
  show "snd (snd (startServer world_ok))
     = [AmqpConnect, CreateChannel 1, ConnectionOn 1 ''error'',
        AssertQueue 7 ''email-queue'' True, Consume 7 ''email-queue'' False,
        AssertQueue 7 ''sms-queue'' True, Consume 7 ''sms-queue'' False,
        AssertQueue 7 ''analytics-queue'' True, Consume 7 ''analytics-queue'' False,
        AssertQueue 7 ''image-processing-queue'' True,
        Consume 7 ''image-processing-queue'' False]"
    by (simp add: startServer_def c b)
  show "fst (snd (startServer world_ok)) = connected_service"
    by (simp add: startServer_def c b)
  have e: "ensureConnected world_ok connected_service = (None, connected_service, [])"
    by (simp add: ensureConnected_def connected_service_def)
  have t: "JSON_stringify world_ok (envelope world_ok (welcome_email_job saved_user))
              = Inr (json_text server_email)"
    by (simp only: envelope_saved_user) (simp add: world_ok_def)
  have h2: "channel connected_service = Some 7" by (simp add: connected_service_def)
  have h3: "channel_assertQueue world_ok 7 ''email-queue'' = Inr ()" by (simp add: world_ok_def)
  have h5: "channel_sendToQueue world_ok 7 ''email-queue'' (json_text server_email) = Inr True"
    by (simp add: world_ok_def)
  show "snd (snd (sendToQueue world_ok connected_service ''email-queue'' (welcome_email_job saved_user)))
       = [AssertQueue 7 ''email-queue'' True,
          SendToQueue 7 ''email-queue'' (json_text server_email) True]"
    by (simp add: sendToQueue_def e h2 h3 t h5)
qed

text \<open>
  Claim C8, amended. \<open>RabbitMQService\<close> holds a single channel. While the service stays
  connected, the publish path, every queue's subscription, queue introspection and the
  ack or nack that ends every delivery all use that one channel, and none of these
  operations replaces it.
\<close>

theorem service_uses_one_channel:
  assumes c: "isConnected s" and ch: "channel s = Some ch"
  shows "set (map channel_of (snd (snd (sendToQueue w s q message)))) \<subseteq> {Some ch}
       \<and> set (map channel_of (snd (snd (consumeQueue w s q)))) \<subseteq> {Some ch}
       \<and> set (map channel_of (snd (snd (getQueueInfo w s q)))) \<subseteq> {Some ch}
       \<and> set (map channel_of (snd (startBackgroundWorkers w s))) \<subseteq> {Some ch}
       \<and> (\<exists>evs r. consumeQueue_onMessage w s callback (Some m) = (evs @ [r], Inr ())
              \<and> is_resolution r \<and> channel_of r = Some ch)"
proof (intro conjI)
  from c ch show "set (map channel_of (snd (snd (sendToQueue w s q message)))) \<subseteq> {Some ch}"
    by (simp add: sendToQueue_def ensureConnected_connected split: sum.splits)
  from c ch show "set (map channel_of (snd (snd (consumeQueue w s q)))) \<subseteq> {Some ch}"
    by (rule consumeQueue_channels)
  from c ch show "set (map channel_of (snd (snd (getQueueInfo w s q)))) \<subseteq> {Some ch}"
    by (simp add: getQueueInfo_def ensureConnected_connected)
  from c ch show "set (map channel_of (snd (startBackgroundWorkers w s))) \<subseteq> {Some ch}"
    by (rule startBackgroundWorkers_channels)
  from ch show "\<exists>evs r. consumeQueue_onMessage w s callback (Some m) = (evs @ [r], Inr ())
              \<and> is_resolution r \<and> channel_of r = Some ch"
    by (rule consumeQueue_onMessage_last)
qed

theorem service_uses_one_channel_witness:
  "isConnected connected_service
   \<and> channel connected_service = Some 7
   \<and> set (map channel_of
          (snd (snd (sendToQueue world_ok connected_service ''email-queue''
                       (welcome_email_job saved_user))))) \<subseteq> {Some 7}
   \<and> set (map channel_of (snd (startBackgroundWorkers world_ok connected_service))) \<subseteq> {Some 7}"
proof -
  have h1: "isConnected connected_service" by (simp add: connected_service_def)
  have h2: "channel connected_service = Some 7" by (simp add: connected_service_def)
  show ?thesis
    using h1 h2
      service_uses_one_channel
        [OF h1 h2, of world_ok "''email-queue''" "welcome_email_job saved_user"]
    by blast
qed

lemma assert_queues_no_timer: "filter is_timer (snd (assert_queues w ch qs)) = []"
  by (induction qs) (auto split: sum.splits prod.splits)

lemma assert_queues_no_connect: "filter (\<lambda>e. e = AmqpConnect) (snd (assert_queues w ch qs)) = []"
  by (induction qs) (auto split: sum.splits prod.splits)

lemma assert_queues_all:
  "\<forall>q \<in> set qs. channel_assertQueue w ch q = Inr () \<Longrightarrow>
     assert_queues w ch qs = (None, map (\<lambda>q. AssertQueue ch q True) qs)"
  by (induction qs) simp_all

lemma assert_queues_accepted:
  "\<not> list_ex (\<lambda>q. isl (channel_assertQueue w ch q)) qs \<Longrightarrow>
     assert_queues w ch qs = (None, map (\<lambda>q. AssertQueue ch q True) qs)"
  by (induction qs) (auto split: sum.splits)

lemma assert_queues_refused:
  "list_ex (\<lambda>q. isl (channel_assertQueue w ch q)) qs \<Longrightarrow>
     \<exists>e evs. assert_queues w ch qs = (Some e, evs)"
  by (induction qs) (auto split: sum.splits prod.splits)

lemma connectRabbitMQ_returns: "fst (connectRabbitMQ w st) = Inr ()"
  by (simp add: connectRabbitMQ_def connectRabbitMQ_catch_def split: sum.splits prod.splits option.splits)

lemma connectRabbitMQ_refused:
  assumes "attempt_refused w QUEUES"
  shows "\<exists>a evs. connectRabbitMQ w st
                    = (Inr (), st\<lparr>connection_app := a, channel_app := None\<rparr>,
                       evs @ [SetTimeout ConnectRabbitMQ_cb 5000])
                  \<and> filter is_timer evs = []
                  \<and> filter (\<lambda>e. e = AmqpConnect) evs = [AmqpConnect]"
proof (cases "amqp_connect w")
  case (Inl e)
  have "connectRabbitMQ w st
          = (Inr (), st\<lparr>connection_app := connection_app st, channel_app := None\<rparr>,
             [AmqpConnect] @ [SetTimeout ConnectRabbitMQ_cb 5000])"
    by (simp add: connectRabbitMQ_def connectRabbitMQ_catch_def Inl)
  then show ?thesis
    by (intro exI [where x = "connection_app st"] exI [where x = "[AmqpConnect]"]) simp
next
  case c: (Inr c)
  show ?thesis
  proof (cases "connection_createChannel w c")
    case (Inl e)
    have "connectRabbitMQ w st
            = (Inr (), st\<lparr>connection_app := Some c, channel_app := None\<rparr>,
               [AmqpConnect, CreateChannel c] @ [SetTimeout ConnectRabbitMQ_cb 5000])"
      by (simp add: connectRabbitMQ_def connectRabbitMQ_catch_def c Inl)
    then show ?thesis
      by (intro exI [where x = "Some c"] exI [where x = "[AmqpConnect, CreateChannel c]"]) simp
  next
    case ch: (Inr ch)
    from assms c ch have "list_ex (\<lambda>q. isl (channel_assertQueue w ch q)) QUEUES"
      by (simp add: attempt_refused_def)
    from assert_queues_refused [OF this] obtain e evs
      where a: "assert_queues w ch QUEUES = (Some e, evs)" by blast
    have t: "filter is_timer evs = []"
      using assert_queues_no_timer [of w ch QUEUES] by (simp add: a)
    have n: "filter (\<lambda>e. e = AmqpConnect) evs = []"
      using assert_queues_no_connect [of w ch QUEUES] by (simp add: a)
    have "connectRabbitMQ w st
            = (Inr (), st\<lparr>connection_app := Some c, channel_app := None\<rparr>,
               ([AmqpConnect, CreateChannel c] @ evs) @ [SetTimeout ConnectRabbitMQ_cb 5000])"
      by (simp add: connectRabbitMQ_def connectRabbitMQ_catch_def c ch a)
    then show ?thesis using t n
      by (intro exI [where x = "Some c"] exI [where x = "[AmqpConnect, CreateChannel c] @ evs"]) simp
  qed
qed

lemma connectRabbitMQ_accepted:
  assumes "\<not> attempt_refused w QUEUES"
  shows "\<exists>c ch. amqp_connect w = Inr c \<and> connection_createChannel w c = Inr ch
           \<and> connectRabbitMQ w st
               = (Inr (),
                  st\<lparr>connection_app := Some c, channel_app := Some ch,
                     listeners_app := listeners_app st @ [(c, ''close''), (c, ''error'')]\<rparr>,
                  [AmqpConnect, CreateChannel c] @ map (\<lambda>q. AssertQueue ch q True) QUEUES
                    @ [ConnectionOn c ''close'', ConnectionOn c ''error''])"
proof -
  from assms obtain c where c: "amqp_connect w = Inr c"
    by (cases "amqp_connect w") (simp_all add: attempt_refused_def)
  from assms c obtain ch where ch: "connection_createChannel w c = Inr ch"
    by (cases "connection_createChannel w c") (simp_all add: attempt_refused_def)
  from assms c ch have "\<not> list_ex (\<lambda>q. isl (channel_assertQueue w ch q)) QUEUES"
    by (simp add: attempt_refused_def)
  from assert_queues_accepted [OF this] show ?thesis
    by (simp add: connectRabbitMQ_def c ch)
qed

lemma connectRabbitMQ_up:
  assumes "amqp_connect w = Inr c" and "connection_createChannel w c = Inr ch"
      and "\<forall>q \<in> set QUEUES. channel_assertQueue w ch q = Inr ()"
  shows "connectRabbitMQ w st
       = (Inr (),
          st\<lparr>connection_app := Some c, channel_app := Some ch,
             listeners_app := listeners_app st @ [(c, ''close''), (c, ''error'')]\<rparr>,
          [AmqpConnect, CreateChannel c] @ map (\<lambda>q. AssertQueue ch q True) QUEUES
            @ [ConnectionOn c ''close'', ConnectionOn c ''error''])"
  using assms(1,2) by (simp add: connectRabbitMQ_def assert_queues_all [OF assms(3)])

lemma connectRabbitMQ_timer:
  "filter is_timer (snd (snd (connectRabbitMQ w st)))
     = (if attempt_refused w QUEUES then [SetTimeout ConnectRabbitMQ_cb 5000] else [])"
proof (cases "attempt_refused w QUEUES")
  case True
  from connectRabbitMQ_refused [OF True, of st] show ?thesis using True by auto
next
  case False
  from connectRabbitMQ_accepted [OF False, of st] show ?thesis using False by auto
qed

lemma connectRabbitMQ_last:
  "attempt_refused w QUEUES
     \<longleftrightarrow> last (snd (snd (connectRabbitMQ w st))) = SetTimeout ConnectRabbitMQ_cb 5000"
proof (cases "attempt_refused w QUEUES")
  case True
  from connectRabbitMQ_refused [OF True, of st] show ?thesis using True by auto
next
  case False
  from connectRabbitMQ_accepted [OF False, of st] show ?thesis using False by auto
qed

lemma connectRabbitMQ_channel:
  "attempt_refused w QUEUES \<longleftrightarrow> channel_app (fst (snd (connectRabbitMQ w st))) = None"
proof (cases "attempt_refused w QUEUES")
  case True
  from connectRabbitMQ_refused [OF True, of st] show ?thesis using True by auto
next
  case False
  from connectRabbitMQ_accepted [OF False, of st] show ?thesis using False by auto
qed

lemma retry_connectRabbitMQ_until_up:
  assumes up: "amqp_connect w_up = Inr c" "connection_createChannel w_up c = Inr ch"
      "\<forall>q \<in> set QUEUES. channel_assertQueue w_up ch q = Inr ()"
  shows "list_all (\<lambda>w. attempt_refused w QUEUES) ws \<Longrightarrow>
     fst (retry_connectRabbitMQ (ws @ [w_up]) st)
       = st\<lparr>connection_app := Some c, channel_app := Some ch,
            listeners_app := listeners_app st @ [(c, ''close''), (c, ''error'')]\<rparr>
     \<and> filter is_timer (snd (retry_connectRabbitMQ (ws @ [w_up]) st))
         = replicate (length ws) (SetTimeout ConnectRabbitMQ_cb 5000)
     \<and> filter (\<lambda>e. e = AmqpConnect) (snd (retry_connectRabbitMQ (ws @ [w_up]) st))
         = replicate (Suc (length ws)) AmqpConnect"
proof (induction ws arbitrary: st)
  case Nil
  show ?case by (simp add: connectRabbitMQ_up [OF up] QUEUES_def)
next
  case (Cons w ws)
  from Cons.prems have d: "attempt_refused w QUEUES"
    and rest: "list_all (\<lambda>w. attempt_refused w QUEUES) ws"
    by simp_all
  from connectRabbitMQ_refused [OF d, of st] obtain a evs
    where run: "connectRabbitMQ w st
                  = (Inr (), st\<lparr>connection_app := a, channel_app := None\<rparr>,
                     evs @ [SetTimeout ConnectRabbitMQ_cb 5000])"
      and t: "filter is_timer evs = []"
      and n: "filter (\<lambda>e. e = AmqpConnect) evs = [AmqpConnect]"
    by blast
  from Cons.IH [OF rest, of "st\<lparr>connection_app := a, channel_app := None\<rparr>"]
  show ?case
    by (auto simp add: run t n split: prod.splits)
qed

lemma setupEmailConsumer_returns: "fst (setupEmailConsumer w ls) = Inr ()"
  by (simp add: setupEmailConsumer_def setupEmailConsumer_catch_def split: sum.splits)

lemma setupEmailConsumer_refused:
  assumes "attempt_refused w [EMAIL_QUEUE]"
  shows "\<exists>evs. setupEmailConsumer w ls = (Inr (), ls, evs @ [SetTimeout SetupEmailConsumer_cb 5000])
               \<and> filter is_timer evs = []
               \<and> filter (\<lambda>e. e = AmqpConnect) evs = [AmqpConnect]"
proof (cases "amqp_connect w")
  case (Inl e)
  have "setupEmailConsumer w ls = (Inr (), ls, [AmqpConnect] @ [SetTimeout SetupEmailConsumer_cb 5000])"
    by (simp add: setupEmailConsumer_def setupEmailConsumer_catch_def Inl)
  then show ?thesis by (intro exI [where x = "[AmqpConnect]"]) simp
next
  case c: (Inr c)
  show ?thesis
  proof (cases "connection_createChannel w c")
    case (Inl e)
    have "setupEmailConsumer w ls
            = (Inr (), ls, [AmqpConnect, CreateChannel c] @ [SetTimeout SetupEmailConsumer_cb 5000])"
      by (simp add: setupEmailConsumer_def setupEmailConsumer_catch_def c Inl)
    then show ?thesis by (intro exI [where x = "[AmqpConnect, CreateChannel c]"]) simp
  next
    case ch: (Inr ch)
    from assms c ch obtain e where e: "channel_assertQueue w ch EMAIL_QUEUE = Inl e"
      by (cases "channel_assertQueue w ch EMAIL_QUEUE") (simp_all add: attempt_refused_def)
    have "setupEmailConsumer w ls
            = (Inr (), ls,
               [AmqpConnect, CreateChannel c, AssertQueue ch EMAIL_QUEUE True]
                 @ [SetTimeout SetupEmailConsumer_cb 5000])"
      by (simp add: setupEmailConsumer_def setupEmailConsumer_catch_def c ch e)
    then show ?thesis
      by (intro exI [where x = "[AmqpConnect, CreateChannel c, AssertQueue ch EMAIL_QUEUE True]"]) simp
  qed
qed

lemma setupEmailConsumer_accepted:
  assumes "\<not> attempt_refused w [EMAIL_QUEUE]"
  shows "\<exists>c ch. amqp_connect w = Inr c \<and> connection_createChannel w c = Inr ch
           \<and> setupEmailConsumer w ls
               = (Inr (), ls @ [(c, ''close'')],
                  [AmqpConnect, CreateChannel c, AssertQueue ch EMAIL_QUEUE True, Prefetch ch 1,
                   Consume ch EMAIL_QUEUE False, ConnectionOn c ''close''])"
proof -
  from assms obtain c where c: "amqp_connect w = Inr c"
    by (cases "amqp_connect w") (simp_all add: attempt_refused_def)
  from assms c obtain ch where ch: "connection_createChannel w c = Inr ch"
    by (cases "connection_createChannel w c") (simp_all add: attempt_refused_def)
  from assms c ch obtain u where u: "channel_assertQueue w ch EMAIL_QUEUE = Inr u"
    by (cases "channel_assertQueue w ch EMAIL_QUEUE") (simp_all add: attempt_refused_def)
  show ?thesis by (simp add: setupEmailConsumer_def c ch u)
qed

lemma setupEmailConsumer_up:
  assumes "amqp_connect w = Inr c" and "connection_createChannel w c = Inr ch"
      and "channel_assertQueue w ch EMAIL_QUEUE = Inr ()"
  shows "setupEmailConsumer w ls
       = (Inr (), ls @ [(c, ''close'')],
          [AmqpConnect, CreateChannel c, AssertQueue ch EMAIL_QUEUE True, Prefetch ch 1,
           Consume ch EMAIL_QUEUE False, ConnectionOn c ''close''])"
  using assms by (simp add: setupEmailConsumer_def)

lemma setupEmailConsumer_timer:
  "filter is_timer (snd (snd (setupEmailConsumer w ls)))
     = (if attempt_refused w [EMAIL_QUEUE] then [SetTimeout SetupEmailConsumer_cb 5000] else [])"
proof (cases "attempt_refused w [EMAIL_QUEUE]")
  case True
  from setupEmailConsumer_refused [OF True, of ls] show ?thesis using True by auto
next
  case False
  from setupEmailConsumer_accepted [OF False, of ls] show ?thesis using False by auto
qed

lemma setupEmailConsumer_last:
  "attempt_refused w [EMAIL_QUEUE]
     \<longleftrightarrow> last (snd (snd (setupEmailConsumer w ls))) = SetTimeout SetupEmailConsumer_cb 5000"
proof (cases "attempt_refused w [EMAIL_QUEUE]")
  case True
  from setupEmailConsumer_refused [OF True, of ls] show ?thesis using True by auto
next
  case False
  from setupEmailConsumer_accepted [OF False, of ls] show ?thesis using False by auto
qed

lemma setupEmailConsumer_listeners:
  "attempt_refused w [EMAIL_QUEUE] \<longleftrightarrow> fst (snd (setupEmailConsumer w ls)) = ls"
proof (cases "attempt_refused w [EMAIL_QUEUE]")
  case True
  from setupEmailConsumer_refused [OF True, of ls] show ?thesis using True by auto
next
  case False
  from setupEmailConsumer_accepted [OF False, of ls] show ?thesis using False by auto
qed

lemma retry_setupEmailConsumer_until_up:
  assumes up: "amqp_connect w_up = Inr c" "connection_createChannel w_up c = Inr ch"
      "channel_assertQueue w_up ch EMAIL_QUEUE = Inr ()"
  shows "list_all (\<lambda>w. attempt_refused w [EMAIL_QUEUE]) ws \<Longrightarrow>
     fst (retry_setupEmailConsumer (ws @ [w_up]) ls) = ls @ [(c, ''close'')]
     \<and> filter is_timer (snd (retry_setupEmailConsumer (ws @ [w_up]) ls))
         = replicate (length ws) (SetTimeout SetupEmailConsumer_cb 5000)
     \<and> filter (\<lambda>e. e = AmqpConnect) (snd (retry_setupEmailConsumer (ws @ [w_up]) ls))
         = replicate (Suc (length ws)) AmqpConnect"
proof (induction ws)
  case Nil
  show ?case by (simp add: setupEmailConsumer_up [OF up])
next
  case (Cons w ws)
  from Cons.prems have d: "attempt_refused w [EMAIL_QUEUE]"
    and rest: "list_all (\<lambda>w. attempt_refused w [EMAIL_QUEUE]) ws"
    by simp_all
  from setupEmailConsumer_refused [OF d, of ls] obtain evs
    where run: "setupEmailConsumer w ls = (Inr (), ls, evs @ [SetTimeout SetupEmailConsumer_cb 5000])"
      and t: "filter is_timer evs = []"
      and n: "filter (\<lambda>e. e = AmqpConnect) evs = [AmqpConnect]"
    by blast
  from Cons.IH [OF rest]
  show ?case
    by (auto simp add: run t n split: prod.splits)
qed

lemma connect_result:
  "fst (connect w s)
     = (case amqp_connect w of Inl error \<Rightarrow> Inl error | Inr c \<Rightarrow> connection_createChannel w c)"
  by (simp add: connect_def split: sum.splits)

lemma connect_no_timer: "filter is_timer (snd (snd (connect w s))) = []"
  by (simp add: connect_def split: sum.splits)

lemma connect_surfaces:
  "isl (fst (connect w s)) \<longleftrightarrow> \<not> isConnected (fst (snd (connect w s)))"
  by (simp add: connect_def split: sum.splits)

lemma emit_no_event: "snd (emit c name s) = []"
  by (simp add: emit_def)

lemma emit_close: "emit c ''close'' s = (s, [])"
  by (simp add: emit_def)

lemma ensureConnected_no_timer: "filter is_timer (snd (snd (ensureConnected w s))) = []"
proof (cases "connect w s")
  case (fields r s' evs)
  with connect_no_timer [of w s] show ?thesis
    by (simp add: ensureConnected_def split: sum.splits)
qed

lemma consumeQueue_no_timer: "filter is_timer (snd (snd (consumeQueue w s q))) = []"
proof (cases "ensureConnected w s")
  case (fields r s' evs)
  with ensureConnected_no_timer [of w s] show ?thesis
    by (simp add: consumeQueue_def split: sum.splits option.splits)
qed

lemma startBackgroundWorkers_no_timer: "filter is_timer (snd (startBackgroundWorkers w s)) = []"
proof -
  have k: "\<And>s q r s' evs. consumeQueue w s q = (r, s', evs) \<Longrightarrow> filter is_timer evs = []"
    using consumeQueue_no_timer by (metis snd_conv)
  show ?thesis
    by (auto simp add: startBackgroundWorkers_def dest!: k split: sum.splits prod.splits)
qed

lemma startServer_result:
  "fst (startServer w)
     = (case fst (connect w RabbitMQService) of Inl error \<Rightarrow> Inl error | Inr ch \<Rightarrow> Inr ())"
proof (cases "connect w RabbitMQService")
  case (fields r s evs)
  then show ?thesis
    by (cases "startBackgroundWorkers w s") (simp add: startServer_def split: sum.splits)
qed

lemma startServer_no_timer: "filter is_timer (snd (snd (startServer w))) = []"
proof (cases "connect w RabbitMQService")
  case (fields r s evs)
  with connect_no_timer [of w RabbitMQService] startBackgroundWorkers_no_timer [of w s]
  show ?thesis
    by (cases "startBackgroundWorkers w s") (simp add: startServer_def split: sum.splits)
qed

text \<open>
  Claim C6 says that the connection manager reconnects after 5 seconds on an unexpected
  close, and surfaces the errors of the initial attempt to the caller. Against it: when
  the broker refuses the first connection, \<open>connectRabbitMQ\<close> and \<open>setupEmailConsumer\<close>
  return normally (the error is caught and a timer set); and \<open>RabbitMQService.connect\<close>,
  which does surface the error, sets no timer, and a \<open>close\<close> event of its connection
  has no listener.
\<close>

theorem errors_swallowed_or_no_reconnect:
  "fst (connectRabbitMQ world_broker_down app_js_init) = Inr ()
   \<and> fst (setupEmailConsumer world_broker_down []) = Inr ()
   \<and> connect world_broker_down RabbitMQService = (Inl broker_error, RabbitMQService, [AmqpConnect])
   \<and> emit 1 ''close'' connected_service = (connected_service, [])"
  by (simp add: connectRabbitMQ_returns setupEmailConsumer_returns connect_def emit_def
        world_broker_down_def RabbitMQService_def)

text \<open>
  Claim C6, amended. In \<open>app.js\<close> (\<open>connectRabbitMQ\<close>) and in the standalone worker
  (\<open>setupEmailConsumer\<close>) an attempt never surfaces an error. An attempt in which the
  library rejects \<open>amqp.connect\<close>, \<open>createChannel\<close> or an \<open>assertQueue\<close>, the first
  attempt included, ends by setting one timer that runs the function again after
  5000 ms, and leaves no channel (no listener, in the worker); an attempt in which
  nothing is rejected sets no timer. After any number of refused attempts the first
  accepted one ends the retries: one attempt per world, one timer per refused attempt.
  A \<open>close\<close> event of the established connection, whatever its cause, sets the same
  timer. \<open>RabbitMQService.connect\<close> returns to its caller the very error of a rejected
  \<open>amqp.connect\<close> or \<open>createChannel\<close>, is connected exactly when it returned none, and
  \<open>startServer\<close> ends with that error; neither of them sets a timer, and an event of
  the connection sets none either: a \<open>close\<close> event changes nothing.
\<close>

theorem reconnect_after_fixed_delay:
  assumes down: "list_all (\<lambda>w. attempt_refused w QUEUES) ws"
      and down': "list_all (\<lambda>w. attempt_refused w [EMAIL_QUEUE]) ws'"
      and up: "amqp_connect w_up = Inr c" "connection_createChannel w_up c = Inr ch"
              "\<forall>q \<in> set QUEUES. channel_assertQueue w_up ch q = Inr ()"
  shows "fst (connectRabbitMQ w st) = Inr ()
       \<and> filter is_timer (snd (snd (connectRabbitMQ w st)))
           = (if attempt_refused w QUEUES then [SetTimeout ConnectRabbitMQ_cb 5000] else [])
       \<and> (attempt_refused w QUEUES
            \<longleftrightarrow> last (snd (snd (connectRabbitMQ w st))) = SetTimeout ConnectRabbitMQ_cb 5000)
       \<and> (attempt_refused w QUEUES \<longleftrightarrow> channel_app (fst (snd (connectRabbitMQ w st))) = None)
       \<and> fst (retry_connectRabbitMQ (ws @ [w_up]) st)
           = st\<lparr>connection_app := Some c, channel_app := Some ch,
                listeners_app := listeners_app st @ [(c, ''close''), (c, ''error'')]\<rparr>
       \<and> filter is_timer (snd (retry_connectRabbitMQ (ws @ [w_up]) st))
           = replicate (length ws) (SetTimeout ConnectRabbitMQ_cb 5000)
       \<and> filter (\<lambda>e. e = AmqpConnect) (snd (retry_connectRabbitMQ (ws @ [w_up]) st))
           = replicate (Suc (length ws)) AmqpConnect
       \<and> emit_app c ''close'' (fst (retry_connectRabbitMQ (ws @ [w_up]) st))
           = (st\<lparr>connection_app := Some c, channel_app := None,
                 listeners_app := listeners_app st @ [(c, ''close''), (c, ''error'')]\<rparr>,
              [SetTimeout ConnectRabbitMQ_cb 5000])
       \<and> fst (setupEmailConsumer w ls) = Inr ()
       \<and> filter is_timer (snd (snd (setupEmailConsumer w ls)))
           = (if attempt_refused w [EMAIL_QUEUE] then [SetTimeout SetupEmailConsumer_cb 5000] else [])
       \<and> (attempt_refused w [EMAIL_QUEUE]
            \<longleftrightarrow> last (snd (snd (setupEmailConsumer w ls))) = SetTimeout SetupEmailConsumer_cb 5000)
       \<and> (attempt_refused w [EMAIL_QUEUE] \<longleftrightarrow> fst (snd (setupEmailConsumer w ls)) = ls)
       \<and> fst (retry_setupEmailConsumer (ws' @ [w_up]) ls) = ls @ [(c, ''close'')]
       \<and> filter is_timer (snd (retry_setupEmailConsumer (ws' @ [w_up]) ls))
           = replicate (length ws') (SetTimeout SetupEmailConsumer_cb 5000)
       \<and> filter (\<lambda>e. e = AmqpConnect) (snd (retry_setupEmailConsumer (ws' @ [w_up]) ls))
           = replicate (Suc (length ws')) AmqpConnect
       \<and> emit_worker c ''close'' (fst (retry_setupEmailConsumer (ws' @ [w_up]) ls))
           = (ls @ [(c, ''close'')], [SetTimeout SetupEmailConsumer_cb 5000])
       \<and> fst (connect w s)
           = (case amqp_connect w of
                Inl error \<Rightarrow> Inl error
              | Inr c \<Rightarrow> connection_createChannel w c)
       \<and> (isl (fst (connect w s)) \<longleftrightarrow> \<not> isConnected (fst (snd (connect w s))))
       \<and> filter is_timer (snd (snd (connect w s))) = []
       \<and> fst (startServer w)
           = (case fst (connect w RabbitMQService) of Inl error \<Rightarrow> Inl error | Inr ch \<Rightarrow> Inr ())
       \<and> filter is_timer (snd (snd (startServer w))) = []
       \<and> snd (emit c' name s) = []
       \<and> emit c' ''close'' s = (s, [])"
proof -
  from up(3) have up_email: "channel_assertQueue w_up ch EMAIL_QUEUE = Inr ()"
    by (simp add: QUEUES_def EMAIL_QUEUE_def)
  note app = retry_connectRabbitMQ_until_up [OF up down, of st]
  note worker = retry_setupEmailConsumer_until_up [OF up(1,2) up_email down', of ls]
  have close_app: "emit_app c ''close'' (fst (retry_connectRabbitMQ (ws @ [w_up]) st))
           = (st\<lparr>connection_app := Some c, channel_app := None,
                 listeners_app := listeners_app st @ [(c, ''close''), (c, ''error'')]\<rparr>,
              [SetTimeout ConnectRabbitMQ_cb 5000])"
    using app by (simp add: emit_app_def)
  have close_worker: "emit_worker c ''close'' (fst (retry_setupEmailConsumer (ws' @ [w_up]) ls))
           = (ls @ [(c, ''close'')], [SetTimeout SetupEmailConsumer_cb 5000])"
    using worker by (simp add: emit_worker_def)
  show ?thesis
  proof (intro conjI)
    show "fst (connectRabbitMQ w st) = Inr ()" by (rule connectRabbitMQ_returns)
    show "filter is_timer (snd (snd (connectRabbitMQ w st)))
           = (if attempt_refused w QUEUES then [SetTimeout ConnectRabbitMQ_cb 5000] else [])"
      by (rule connectRabbitMQ_timer)
    show "attempt_refused w QUEUES
            \<longleftrightarrow> last (snd (snd (connectRabbitMQ w st))) = SetTimeout ConnectRabbitMQ_cb 5000"
      by (rule connectRabbitMQ_last)
    show "attempt_refused w QUEUES \<longleftrightarrow> channel_app (fst (snd (connectRabbitMQ w st))) = None"
      by (rule connectRabbitMQ_channel)
    show "fst (retry_connectRabbitMQ (ws @ [w_up]) st)
           = st\<lparr>connection_app := Some c, channel_app := Some ch,
                listeners_app := listeners_app st @ [(c, ''close''), (c, ''error'')]\<rparr>"
      using app by blast
    show "filter is_timer (snd (retry_connectRabbitMQ (ws @ [w_up]) st))
           = replicate (length ws) (SetTimeout ConnectRabbitMQ_cb 5000)"
      using app by blast
    show "filter (\<lambda>e. e = AmqpConnect) (snd (retry_connectRabbitMQ (ws @ [w_up]) st))
           = replicate (Suc (length ws)) AmqpConnect"
      using app by blast
    show "emit_app c ''close'' (fst (retry_connectRabbitMQ (ws @ [w_up]) st))
           = (st\<lparr>connection_app := Some c, channel_app := None,
                 listeners_app := listeners_app st @ [(c, ''close''), (c, ''error'')]\<rparr>,
              [SetTimeout ConnectRabbitMQ_cb 5000])"
      by (rule close_app)
    show "fst (setupEmailConsumer w ls) = Inr ()" by (rule setupEmailConsumer_returns)
    show "filter is_timer (snd (snd (setupEmailConsumer w ls)))
           = (if attempt_refused w [EMAIL_QUEUE] then [SetTimeout SetupEmailConsumer_cb 5000] else [])"
      by (rule setupEmailConsumer_timer)
    show "attempt_refused w [EMAIL_QUEUE]
            \<longleftrightarrow> last (snd (snd (setupEmailConsumer w ls))) = SetTimeout SetupEmailConsumer_cb 5000"
      by (rule setupEmailConsumer_last)
    show "attempt_refused w [EMAIL_QUEUE] \<longleftrightarrow> fst (snd (setupEmailConsumer w ls)) = ls"
      by (rule setupEmailConsumer_listeners)
    show "fst (retry_setupEmailConsumer (ws' @ [w_up]) ls) = ls @ [(c, ''close'')]"
      using worker by blast
    show "filter is_timer (snd (retry_setupEmailConsumer (ws' @ [w_up]) ls))
           = replicate (length ws') (SetTimeout SetupEmailConsumer_cb 5000)"
      using worker by blast
    show "filter (\<lambda>e. e = AmqpConnect) (snd (retry_setupEmailConsumer (ws' @ [w_up]) ls))
           = replicate (Suc (length ws')) AmqpConnect"
      using worker by blast
    show "emit_worker c ''close'' (fst (retry_setupEmailConsumer (ws' @ [w_up]) ls))
           = (ls @ [(c, ''close'')], [SetTimeout SetupEmailConsumer_cb 5000])"
      by (rule close_worker)
    show "fst (connect w s)
           = (case amqp_connect w of
                Inl error \<Rightarrow> Inl error
              | Inr c \<Rightarrow> connection_createChannel w c)"
      by (rule connect_result)
    show "isl (fst (connect w s)) \<longleftrightarrow> \<not> isConnected (fst (snd (connect w s)))"
      by (rule connect_surfaces)
    show "filter is_timer (snd (snd (connect w s))) = []" by (rule connect_no_timer)
    show "fst (startServer w)
           = (case fst (connect w RabbitMQService) of Inl error \<Rightarrow> Inl error | Inr ch \<Rightarrow> Inr ())"
      by (rule startServer_result)
    show "filter is_timer (snd (snd (startServer w))) = []" by (rule startServer_no_timer)
    show "snd (emit c' name s) = []" by (rule emit_no_event)
    show "emit c' ''close'' s = (s, [])" by (rule emit_close)
  qed
qed

lemma refused_worlds:
  "attempt_refused world_broker_down qs"
  "attempt_refused world_no_channel qs"
  "attempt_refused world_queue_refused QUEUES"
  "attempt_refused world_queue_refused [EMAIL_QUEUE]"
  by (simp_all add: attempt_refused_def world_broker_down_def world_no_channel_def
        world_queue_refused_def world_ok_def QUEUES_def)

theorem reconnect_after_fixed_delay_witness:
  "attempt_refused world_broker_down QUEUES
   \<and> attempt_refused world_no_channel QUEUES
   \<and> attempt_refused world_queue_refused QUEUES
   \<and> attempt_refused world_broker_down [EMAIL_QUEUE]
   \<and> attempt_refused world_no_channel [EMAIL_QUEUE]
   \<and> attempt_refused world_queue_refused [EMAIL_QUEUE]
   \<and> amqp_connect world_ok = Inr 1
   \<and> connection_createChannel world_ok 1 = Inr 7
   \<and> channel_assertQueue world_ok 7 ''email-queue'' = Inr ()
   \<and> channel_assertQueue world_ok 7 ''sms-queue'' = Inr ()
   \<and> channel_assertQueue world_ok 7 ''analytics-queue'' = Inr ()
   \<and> channel_assertQueue world_ok 7 ''image-processing-queue'' = Inr ()
   \<and> retry_connectRabbitMQ [world_broker_down, world_no_channel, world_queue_refused, world_ok]
        app_js_init
       = (\<lparr>connection_app = Some 1, channel_app = Some 7,
           listeners_app = [(1, ''close''), (1, ''error'')]\<rparr>,
          [AmqpConnect, SetTimeout ConnectRabbitMQ_cb 5000,
           AmqpConnect, CreateChannel 1, SetTimeout ConnectRabbitMQ_cb 5000,
           AmqpConnect, CreateChannel 1, AssertQueue 7 ''email-queue'' True,
           SetTimeout ConnectRabbitMQ_cb 5000,
           AmqpConnect, CreateChannel 1, AssertQueue 7 ''email-queue'' True,
           AssertQueue 7 ''sms-queue'' True, AssertQueue 7 ''analytics-queue'' True,
           AssertQueue 7 ''image-processing-queue'' True,
           ConnectionOn 1 ''close'', ConnectionOn 1 ''error''])
   \<and> retry_setupEmailConsumer [world_broker_down, world_no_channel, world_queue_refused, world_ok] []
       = ([(1, ''close'')],
          [AmqpConnect, SetTimeout SetupEmailConsumer_cb 5000,
           AmqpConnect, CreateChannel 1, SetTimeout SetupEmailConsumer_cb 5000,
           AmqpConnect, CreateChannel 1, AssertQueue 7 ''email-queue'' True,
           SetTimeout SetupEmailConsumer_cb 5000,
           AmqpConnect, CreateChannel 1, AssertQueue 7 ''email-queue'' True, Prefetch 7 1,
           Consume 7 ''email-queue'' False, ConnectionOn 1 ''close''])
   \<and> emit_app 1 ''close''
        \<lparr>connection_app = Some 1, channel_app = Some 7,
         listeners_app = [(1, ''close''), (1, ''error'')]\<rparr>
       = (\<lparr>connection_app = Some 1, channel_app = None,
           listeners_app = [(1, ''close''), (1, ''error'')]\<rparr>,
          [SetTimeout ConnectRabbitMQ_cb 5000])
   \<and> emit_worker 1 ''close'' [(1, ''close'')]
       = ([(1, ''close'')], [SetTimeout SetupEmailConsumer_cb 5000])
   \<and> connect world_no_channel RabbitMQService
       = (Inl channel_error, RabbitMQService\<lparr>connection := Some 1\<rparr>, [AmqpConnect, CreateChannel 1])
   \<and> startServer world_no_channel
       = (Inl channel_error, RabbitMQService\<lparr>connection := Some 1\<rparr>, [AmqpConnect, CreateChannel 1])
   \<and> emit 1 ''close'' connected_service = (connected_service, [])"
proof -
  have h1: "list_all (\<lambda>w. attempt_refused w QUEUES)
              [world_broker_down, world_no_channel, world_queue_refused]"
    by (simp add: refused_worlds)
  have h2: "list_all (\<lambda>w. attempt_refused w [EMAIL_QUEUE])
              [world_broker_down, world_no_channel, world_queue_refused]"
    by (simp add: refused_worlds)
  have h3: "amqp_connect world_ok = Inr 1" by (simp add: world_ok_def)
  have h4: "connection_createChannel world_ok 1 = Inr 7" by (simp add: world_ok_def)
  have h5: "\<forall>q \<in> set QUEUES. channel_assertQueue world_ok 7 q = Inr ()" by (simp add: world_ok_def)
  have q: "channel_assertQueue world_ok 7 ''email-queue'' = Inr ()"
    "channel_assertQueue world_ok 7 ''sms-queue'' = Inr ()"
    "channel_assertQueue world_ok 7 ''analytics-queue'' = Inr ()"
    "channel_assertQueue world_ok 7 ''image-processing-queue'' = Inr ()"
    by (simp_all add: world_ok_def)
  have a: "snd (retry_connectRabbitMQ [world_broker_down, world_no_channel, world_queue_refused, world_ok]
        app_js_init)
       = [AmqpConnect, SetTimeout ConnectRabbitMQ_cb 5000,
           AmqpConnect, CreateChannel 1, SetTimeout ConnectRabbitMQ_cb 5000,
           AmqpConnect, CreateChannel 1, AssertQueue 7 ''email-queue'' True,
           SetTimeout ConnectRabbitMQ_cb 5000,
           AmqpConnect, CreateChannel 1, AssertQueue 7 ''email-queue'' True,
           AssertQueue 7 ''sms-queue'' True, AssertQueue 7 ''analytics-queue'' True,
           AssertQueue 7 ''image-processing-queue'' True,
           ConnectionOn 1 ''close'', ConnectionOn 1 ''error'']"
    by (simp add: connectRabbitMQ_def connectRabbitMQ_catch_def QUEUES_def world_broker_down_def
          world_no_channel_def world_queue_refused_def world_ok_def)
  have b: "snd (retry_setupEmailConsumer [world_broker_down, world_no_channel, world_queue_refused, world_ok] [])
       = [AmqpConnect, SetTimeout SetupEmailConsumer_cb 5000,
           AmqpConnect, CreateChannel 1, SetTimeout SetupEmailConsumer_cb 5000,
           AmqpConnect, CreateChannel 1, AssertQueue 7 ''email-queue'' True,
           SetTimeout SetupEmailConsumer_cb 5000,
           AmqpConnect, CreateChannel 1, AssertQueue 7 ''email-queue'' True, Prefetch 7 1,
           Consume 7 ''email-queue'' False, ConnectionOn 1 ''close'']"
    by (simp add: setupEmailConsumer_def setupEmailConsumer_catch_def EMAIL_QUEUE_def
          world_broker_down_def world_no_channel_def world_queue_refused_def world_ok_def)
  have c: "connect world_no_channel RabbitMQService
       = (Inl channel_error, RabbitMQService\<lparr>connection := Some 1\<rparr>, [AmqpConnect, CreateChannel 1])"
    by (simp add: connect_def world_no_channel_def world_ok_def RabbitMQService_def)
  have d: "startServer world_no_channel
       = (Inl channel_error, RabbitMQService\<lparr>connection := Some 1\<rparr>, [AmqpConnect, CreateChannel 1])"
    by (simp add: startServer_def c)
  have i: "app_js_init\<lparr>connection_app := Some 1, channel_app := Some 7,
                listeners_app := listeners_app app_js_init @ [(1, ''close''), (1, ''error'')]\<rparr>
           = \<lparr>connection_app = Some 1, channel_app = Some 7,
              listeners_app = [(1, ''close''), (1, ''error'')]\<rparr>"
    "app_js_init\<lparr>connection_app := Some 1, channel_app := None,
                listeners_app := listeners_app app_js_init @ [(1, ''close''), (1, ''error'')]\<rparr>
           = \<lparr>connection_app = Some 1, channel_app = None,
              listeners_app = [(1, ''close''), (1, ''error'')]\<rparr>"
    by (simp_all add: app_js_init_def)
  note t = reconnect_after_fixed_delay
             [OF h1 h2 h3 h4 h5, of world_no_channel app_js_init "[]" RabbitMQService 1 "''close''"]
  have l: "[world_broker_down, world_no_channel, world_queue_refused] @ [world_ok]
             = [world_broker_down, world_no_channel, world_queue_refused, world_ok]"
    by simp
  from t have "fst (retry_connectRabbitMQ
                      ([world_broker_down, world_no_channel, world_queue_refused] @ [world_ok])
                      app_js_init)
      = app_js_init\<lparr>connection_app := Some 1, channel_app := Some 7,
                listeners_app := listeners_app app_js_init @ [(1, ''close''), (1, ''error'')]\<rparr>"
    by blast
  then have app: "fst (retry_connectRabbitMQ
                      [world_broker_down, world_no_channel, world_queue_refused, world_ok] app_js_init)
      = \<lparr>connection_app = Some 1, channel_app = Some 7,
          listeners_app = [(1, ''close''), (1, ''error'')]\<rparr>"
    by (simp only: l i)
  from t have "fst (retry_setupEmailConsumer
                      ([world_broker_down, world_no_channel, world_queue_refused] @ [world_ok]) [])
      = [] @ [(1, ''close'')]"
    by blast
  then have worker: "fst (retry_setupEmailConsumer
                      [world_broker_down, world_no_channel, world_queue_refused, world_ok] [])
      = [(1, ''close'')]"
    by (simp only: l append_Nil)
  from t have "emit_app 1 ''close''
                 (fst (retry_connectRabbitMQ
                         ([world_broker_down, world_no_channel, world_queue_refused] @ [world_ok])
                         app_js_init))
       = (app_js_init\<lparr>connection_app := Some 1, channel_app := None,
            listeners_app := listeners_app app_js_init @ [(1, ''close''), (1, ''error'')]\<rparr>,
          [SetTimeout ConnectRabbitMQ_cb 5000])"
    by blast
  then have close_app: "emit_app 1 ''close''
        \<lparr>connection_app = Some 1, channel_app = Some 7,
         listeners_app = [(1, ''close''), (1, ''error'')]\<rparr>
       = (\<lparr>connection_app = Some 1, channel_app = None,
           listeners_app = [(1, ''close''), (1, ''error'')]\<rparr>,
          [SetTimeout ConnectRabbitMQ_cb 5000])"
    by (simp only: l i app)
  from t have "emit_worker 1 ''close''
                 (fst (retry_setupEmailConsumer
                         ([world_broker_down, world_no_channel, world_queue_refused] @ [world_ok]) []))
       = ([] @ [(1, ''close'')], [SetTimeout SetupEmailConsumer_cb 5000])"
    by blast
  then have close_worker: "emit_worker 1 ''close'' [(1, ''close'')]
       = ([(1, ''close'')], [SetTimeout SetupEmailConsumer_cb 5000])"
    by (simp only: l worker append_Nil)
  have e: "emit 1 ''close'' connected_service = (connected_service, [])"
    by (simp add: emit_def)
  have ra: "retry_connectRabbitMQ [world_broker_down, world_no_channel, world_queue_refused, world_ok]
        app_js_init
       = (\<lparr>connection_app = Some 1, channel_app = Some 7,
           listeners_app = [(1, ''close''), (1, ''error'')]\<rparr>,
          [AmqpConnect, SetTimeout ConnectRabbitMQ_cb 5000,
           AmqpConnect, CreateChannel 1, SetTimeout ConnectRabbitMQ_cb 5000,
           AmqpConnect, CreateChannel 1, AssertQueue 7 ''email-queue'' True,
           SetTimeout ConnectRabbitMQ_cb 5000,
           AmqpConnect, CreateChannel 1, AssertQueue 7 ''email-queue'' True,
           AssertQueue 7 ''sms-queue'' True, AssertQueue 7 ''analytics-queue'' True,
           AssertQueue 7 ''image-processing-queue'' True,
           ConnectionOn 1 ''close'', ConnectionOn 1 ''error''])"
    by (rule prod_eqI) (simp_all only: fst_conv snd_conv app a)
  have rb: "retry_setupEmailConsumer [world_broker_down, world_no_channel, world_queue_refused, world_ok] []
       = ([(1, ''close'')],
          [AmqpConnect, SetTimeout SetupEmailConsumer_cb 5000,
           AmqpConnect, CreateChannel 1, SetTimeout SetupEmailConsumer_cb 5000,
           AmqpConnect, CreateChannel 1, AssertQueue 7 ''email-queue'' True,
           SetTimeout SetupEmailConsumer_cb 5000,
           AmqpConnect, CreateChannel 1, AssertQueue 7 ''email-queue'' True, Prefetch 7 1,
           Consume 7 ''email-queue'' False, ConnectionOn 1 ''close''])"
    by (rule prod_eqI) (simp_all only: fst_conv snd_conv worker b)
  show ?thesis
    by (intro conjI) (rule refused_worlds h3 h4 q ra rb c d e close_app close_worker)+
qed




















lemma welcome_envelope_props:
  "own (envelope w' (welcome_email_job savedUser)) ''action'' = Undefined
   \<and> own (envelope w' (welcome_email_job savedUser)) ''data''
       = Obj [(''userName'', Str (doc_name savedUser))]"
  by (simp add: envelope_def map_of_obj_set welcome_email_job_def)

lemma getEmailTemplate_by_action:
  assumes "\<not> nullish emailData" "\<not> nullish (own emailData ''data'')"
      and "convertible (own (own emailData ''data'') ''userName'')"
      and "convertible (own (own emailData ''data'') ''resetLink'')"
  shows "getEmailTemplate emailData
           = Inr (if own emailData ''action'' = Str ''email-welcome''
                  then Template_welcome (string_of (own (own emailData ''data'') ''userName''))
                  else if own emailData ''action'' = Str ''password-reset''
                  then Template_password_reset (string_of (own (own emailData ''data'') ''resetLink''))
                  else Template_default)"
  using assms by (simp add: getEmailTemplate_def get_prop_def to_string_def)

lemma sendEmail_mailOptions_by_action:
  assumes "\<not> nullish emailData" "\<not> nullish (own emailData ''data'')"
      and "convertible (own (own emailData ''data'') ''userName'')"
      and "convertible (own (own emailData ''data'') ''resetLink'')"
  shows "sendEmail_mailOptions w emailData
           = Inr \<lparr>mail_from = env_SMTP_FROM w,
                  mail_to = own (own emailData ''data'') ''email'',
                  mail_subject =
                    Str (if own emailData ''action'' = Str ''email-welcome'' then subject_welcome
                         else if own emailData ''action'' = Str ''password-reset''
                         then subject_password_reset
                         else ''Sistem Bildirimi''),
                  mail_html =
                    (if own emailData ''action'' = Str ''email-welcome''
                     then Template_welcome (string_of (own (own emailData ''data'') ''userName''))
                     else if own emailData ''action'' = Str ''password-reset''
                     then Template_password_reset
                            (string_of (own (own emailData ''data'') ''resetLink''))
                     else Template_default)\<rparr>"
  using assms(1,2)
  by (simp add: sendEmail_mailOptions_def getEmailTemplate_by_action [OF assms] get_prop_def
        getSubject_def)

text \<open>
  Claim C10. The standalone email worker takes the subject and the template from the
  top-level \<open>action\<close> of the message and the recipient from \<open>data.email\<close>: for every
  message that has a \<open>data\<close> (whose \<open>userName\<close> and \<open>resetLink\<close> can be converted to
  strings), the mail it hands to the transport is addressed to \<open>data.email\<close>, and its
  subject and markup are those of \<open>email-welcome\<close> or of \<open>password-reset\<close> when \<open>action\<close>
  is that string, and the default subject and the default markup for any other
  \<open>action\<close>. The message the \<open>POST /api/users\<close> route of the Socket.io-integrated
  server publishes to \<open>email-queue\<close> (the first of its four jobs) has \<open>type\<close> and
  \<open>email\<close> at the top level, only \<open>userName\<close> under \<open>data\<close> and no \<open>action\<close>. So for
  every such message, once parsed, the worker falls through to the default subject and
  the default template and hands the transport a mail whose recipient is \<open>undefined\<close>.
\<close>

theorem server_email_gets_default_mail:
  assumes parse: "JSON_parse w (content m) = Inr (envelope w' (welcome_email_job savedUser))"
      and message: "\<not> nullish emailData" "\<not> nullish (own emailData ''data'')"
      and printable: "convertible (own (own emailData ''data'') ''userName'')"
                     "convertible (own (own emailData ''data'') ''resetLink'')"
  shows "sendEmail_mailOptions w emailData
           = Inr \<lparr>mail_from = env_SMTP_FROM w,
                  mail_to = own (own emailData ''data'') ''email'',
                  mail_subject =
                    Str (if own emailData ''action'' = Str ''email-welcome'' then subject_welcome
                         else if own emailData ''action'' = Str ''password-reset''
                         then subject_password_reset
                         else ''Sistem Bildirimi''),
                  mail_html =
                    (if own emailData ''action'' = Str ''email-welcome''
                     then Template_welcome (string_of (own (own emailData ''data'') ''userName''))
                     else if own emailData ''action'' = Str ''password-reset''
                     then Template_password_reset
                            (string_of (own (own emailData ''data'') ''resetLink''))
                     else Template_default)\<rparr>
       \<and> fst (sendEmail w emailData)
           = [SendMail
                \<lparr>mail_from = env_SMTP_FROM w,
                 mail_to = own (own emailData ''data'') ''email'',
                 mail_subject = Str (getSubject (own emailData ''action'')),
                 mail_html =
                   (if own emailData ''action'' = Str ''email-welcome''
                    then Template_welcome (string_of (own (own emailData ''data'') ''userName''))
                    else if own emailData ''action'' = Str ''password-reset''
                    then Template_password_reset
                           (string_of (own (own emailData ''data'') ''resetLink''))
                    else Template_default)\<rparr>]
       \<and> getSubject (Str ''email-welcome'') = subject_welcome
       \<and> getSubject (Str ''password-reset'') = subject_password_reset
       \<and> hd (background_jobs w' savedUser) = (''email-queue'', welcome_email_job savedUser)
       \<and> get_prop (envelope w' (welcome_email_job savedUser)) ''action'' = Inr Undefined
       \<and> getSubject Undefined = ''Sistem Bildirimi''
       \<and> getEmailTemplate (envelope w' (welcome_email_job savedUser)) = Inr Template_default
       \<and> sendEmail_mailOptions w (envelope w' (welcome_email_job savedUser))
           = Inr \<lparr>mail_from = env_SMTP_FROM w, mail_to = Undefined,
                  mail_subject = Str ''Sistem Bildirimi'', mail_html = Template_default\<rparr>
       \<and> (\<exists>r. fst (emailConsumer_onMessage w ch (Some m))
                 = [SendMail \<lparr>mail_from = env_SMTP_FROM w, mail_to = Undefined,
                               mail_subject = Str ''Sistem Bildirimi'',
                               mail_html = Template_default\<rparr>, r]
               \<and> is_resolution r)"
proof -
  let ?e = "envelope w' (welcome_email_job savedUser)"
  have obj: "\<not> nullish ?e" by (simp add: envelope_def)
  have a: "get_prop ?e ''action'' = Inr Undefined"
    using welcome_envelope_props [of w' savedUser] obj by (simp add: get_prop_def)
  have d: "get_prop ?e ''data'' = Inr (Obj [(''userName'', Str (doc_name savedUser))])"
    using welcome_envelope_props [of w' savedUser] obj by (simp add: get_prop_def)
  have em: "\<And>v. get_prop (Obj [(''userName'', v)]) ''email'' = Inr Undefined"
    by (simp add: get_prop_def)
  have s: "getSubject Undefined = ''Sistem Bildirimi''" by (simp add: getSubject_def)
  have s1: "getSubject (Str ''email-welcome'') = subject_welcome" by (simp add: getSubject_def)
  have s2: "getSubject (Str ''password-reset'') = subject_password_reset"
    by (simp add: getSubject_def)
  have t: "getEmailTemplate ?e = Inr Template_default"
    by (simp add: getEmailTemplate_def a)
  have o: "sendEmail_mailOptions w ?e
           = Inr \<lparr>mail_from = env_SMTP_FROM w, mail_to = Undefined,
                  mail_subject = Str ''Sistem Bildirimi'', mail_html = Template_default\<rparr>"
    by (simp add: sendEmail_mailOptions_def a d t s em)
  have ev: "fst (sendEmail w ?e)
              = [SendMail \<lparr>mail_from = env_SMTP_FROM w, mail_to = Undefined,
                            mail_subject = Str ''Sistem Bildirimi'',
                            mail_html = Template_default\<rparr>]"
    by (simp add: sendEmail_events o)
  have last: "\<exists>r. fst (emailConsumer_onMessage w ch (Some m))
                 = [SendMail \<lparr>mail_from = env_SMTP_FROM w, mail_to = Undefined,
                               mail_subject = Str ''Sistem Bildirimi'',
                               mail_html = Template_default\<rparr>, r]
               \<and> is_resolution r"
    using ev
    by (cases "sendEmail w ?e")
       (auto simp add: emailConsumer_onMessage_def parse a split: sum.splits)
  have j: "hd (background_jobs w' savedUser) = (''email-queue'', welcome_email_job savedUser)"
    by (simp add: background_jobs_def)
  note g = sendEmail_mailOptions_by_action [OF message printable, of w]
  have g': "fst (sendEmail w emailData)
           = [SendMail
                \<lparr>mail_from = env_SMTP_FROM w,
                 mail_to = own (own emailData ''data'') ''email'',
                 mail_subject = Str (getSubject (own emailData ''action'')),
                 mail_html =
                   (if own emailData ''action'' = Str ''email-welcome''
                    then Template_welcome (string_of (own (own emailData ''data'') ''userName''))
                    else if own emailData ''action'' = Str ''password-reset''
                    then Template_password_reset
                           (string_of (own (own emailData ''data'') ''resetLink''))
                    else Template_default)\<rparr>]"
    by (simp add: sendEmail_events g getSubject_def)
  show ?thesis
    by (intro conjI) (rule g g' s1 s2 j a s t o last)+
qed

lemma worker_email_fields:
  "\<not> nullish worker_email"
  "own worker_email ''action'' = Str ''email-welcome''"
  "own worker_email ''data''
     = Obj [(''email'', Str ''a@b.com''), (''type'', Str ''welcome''),
            (''data'', Obj [(''userName'', Str ''Ada'')])]"
  by (simp_all add: worker_email_def)

lemma reset_email_fields:
  "\<not> nullish reset_email"
  "own reset_email ''action'' = Str ''password-reset''"
  "own reset_email ''data''
     = Obj [(''email'', Str ''a@b.com''), (''resetLink'', Str ''https://example.com/reset/42'')]"
  by (simp_all add: reset_email_def)

theorem server_email_gets_default_mail_witness:
  "JSON_parse world_ok (content server_msg) = Inr (envelope world_ok (welcome_email_job saved_user))
   \<and> \<not> nullish worker_email
   \<and> \<not> nullish (own worker_email ''data'')
   \<and> convertible (own (own worker_email ''data'') ''userName'')
   \<and> convertible (own (own worker_email ''data'') ''resetLink'')
   \<and> \<not> nullish reset_email
   \<and> \<not> nullish (own reset_email ''data'')
   \<and> convertible (own (own reset_email ''data'') ''userName'')
   \<and> convertible (own (own reset_email ''data'') ''resetLink'')
   \<and> sendEmail_mailOptions world_ok worker_email
       = Inr \<lparr>mail_from = Str ''noreply@example.com'', mail_to = Str ''a@b.com'',
              mail_subject = Str subject_welcome, mail_html = Template_welcome ''undefined''\<rparr>
   \<and> sendEmail_mailOptions world_ok reset_email
       = Inr \<lparr>mail_from = Str ''noreply@example.com'', mail_to = Str ''a@b.com'',
              mail_subject = Str subject_password_reset,
              mail_html = Template_password_reset ''https://example.com/reset/42''\<rparr>
   \<and> fst (emailConsumer_onMessage world_ok 7 (Some server_msg))
       = [SendMail \<lparr>mail_from = Str ''noreply@example.com'', mail_to = Undefined,
                     mail_subject = Str ''Sistem Bildirimi'', mail_html = Template_default\<rparr>,
          Ack 7 server_msg]"
proof -
  have h: "JSON_parse world_ok (content server_msg)
             = Inr (envelope world_ok (welcome_email_job saved_user))"
    by (simp only: envelope_saved_user parse_server_msg)
  have f: "env_SMTP_FROM world_ok = Str ''noreply@example.com''" by (simp add: world_ok_def)
  have w1: "\<not> nullish worker_email" by (rule worker_email_fields(1))
  have w2: "\<not> nullish (own worker_email ''data'')" by (simp add: worker_email_fields)
  have w3: "convertible (own (own worker_email ''data'') ''userName'')"
    by (simp add: worker_email_fields)
  have w4: "convertible (own (own worker_email ''data'') ''resetLink'')"
    by (simp add: worker_email_fields)
  have r1: "\<not> nullish reset_email" by (rule reset_email_fields(1))
  have r2: "\<not> nullish (own reset_email ''data'')" by (simp add: reset_email_fields)
  have r3: "convertible (own (own reset_email ''data'') ''userName'')"
    by (simp add: reset_email_fields)
  have r4: "convertible (own (own reset_email ''data'') ''resetLink'')"
    by (simp add: reset_email_fields)
  note tw = server_email_gets_default_mail [OF h w1 w2 w3 w4, of 7]
  note tr = server_email_gets_default_mail [OF h r1 r2 r3 r4, of 7]
  have ow: "sendEmail_mailOptions world_ok worker_email
       = Inr \<lparr>mail_from = Str ''noreply@example.com'', mail_to = Str ''a@b.com'',
              mail_subject = Str subject_welcome, mail_html = Template_welcome ''undefined''\<rparr>"
    using tw by (simp add: f worker_email_fields)
  have orr: "sendEmail_mailOptions world_ok reset_email
       = Inr \<lparr>mail_from = Str ''noreply@example.com'', mail_to = Str ''a@b.com'',
              mail_subject = Str subject_password_reset,
              mail_html = Template_password_reset ''https://example.com/reset/42''\<rparr>"
    using tr by (simp add: f reset_email_fields)
  have ok: "snd (sendEmail world_ok (envelope world_ok (welcome_email_job saved_user)))
              = Inr (Obj [(''messageId'', Str ''<1@example.com>'')])"
    using tw
    by (simp add: sendEmail_def)
       (simp add: world_ok_def sendEmail_sent_def recipient_text_def get_prop_def to_string_def
          envelope_def welcome_email_job_def)
  have r: "fst (emailConsumer_onMessage world_ok 7 (Some server_msg))
             = fst (sendEmail world_ok (envelope world_ok (welcome_email_job saved_user)))
                 @ [Ack 7 server_msg]"
    using ok tw
    by (cases "sendEmail world_ok (envelope world_ok (welcome_email_job saved_user))")
       (simp add: emailConsumer_onMessage_def h)
  have last: "fst (emailConsumer_onMessage world_ok 7 (Some server_msg))
       = [SendMail \<lparr>mail_from = Str ''noreply@example.com'', mail_to = Undefined,
                     mail_subject = Str ''Sistem Bildirimi'', mail_html = Template_default\<rparr>,
          Ack 7 server_msg]"
    using r tw by (simp add: f sendEmail_events)
  show ?thesis
    by (intro conjI) (rule h w1 w2 w3 w4 r1 r2 r3 r4 ow orr last)+
qed

end
